theory Spec2Isabelle
  imports Complex_Main
begin

section \<open>Python strings\<close>

text \<open>
  A Python \<open>str\<close> is modelled as a \<open>string\<close> whose characters are the code points
  0 to 255. On this range \<open>str.lower()\<close> works character by character and stays in
  the range, and \<open>str.strip()\<close> removes the characters for which \<open>str.isspace()\<close>
  holds. String comparison is exact (the collation of the database is taken as binary).
\<close>

definition is_space :: "char \<Rightarrow> bool" where
  "is_space c = ((of_char c :: nat) \<in> {9, 10, 11, 12, 13, 28, 29, 30, 31, 32, 133, 160})"

definition lower_char :: "char \<Rightarrow> char" where
  "lower_char c =
     (let n = (of_char c :: nat)
      in if (65 \<le> n \<and> n \<le> 90) \<or> (192 \<le> n \<and> n \<le> 222 \<and> n \<noteq> 215)
         then char_of (n + 32) else c)"

definition py_lower :: "string \<Rightarrow> string" where
  "py_lower s = map lower_char s"

definition py_strip :: "string \<Rightarrow> string" where
  "py_strip s = rev (dropWhile is_space (rev (dropWhile is_space s)))"

text \<open>\<open>str.upper()\<close> on the same range: the sharp s (223) becomes the two letters
  \<open>SS\<close>, and the micro sign (181) and the y with diaeresis (255) leave the range, for
  which the result is \<open>None\<close>.\<close>

definition upper_char :: "char \<Rightarrow> string option" where
  "upper_char c =
     (let n = (of_char c :: nat)
      in if (97 \<le> n \<and> n \<le> 122) \<or> (224 \<le> n \<and> n \<le> 254 \<and> n \<noteq> 247)
         then Some [char_of (n - 32)]
         else if n = 223 then Some ''SS''
         else if n = 181 \<or> n = 255 then None
         else Some [c])"

fun py_upper :: "string \<Rightarrow> string option" where
  "py_upper [] = Some []"
| "py_upper (c # cs) =
     (case upper_char c of
        None \<Rightarrow> None
      | Some u \<Rightarrow> (case py_upper cs of None \<Rightarrow> None | Some r \<Rightarrow> Some (u @ r)))"

fun startswith :: "string \<Rightarrow> string \<Rightarrow> bool" where
  "startswith s [] = True"
| "startswith [] (c # cs) = False"
| "startswith (d # ds) (c # cs) = (d = c \<and> startswith ds cs)"

text \<open>\<open>py_in sub s\<close> is Python's \<open>sub in s\<close> on strings: \<open>sub\<close> occurs in \<open>s\<close> as a
  contiguous piece.\<close>

fun py_in :: "string \<Rightarrow> string \<Rightarrow> bool" where
  "py_in sub [] = (sub = [])"
| "py_in sub (c # cs) = (startswith (c # cs) sub \<or> py_in sub cs)"

text \<open>Truthiness of an \<open>Optional[str]\<close>: \<open>None\<close> and the empty string are false.\<close>

fun truthy :: "string option \<Rightarrow> bool" where
  "truthy None = False"
| "truthy (Some s) = (s \<noteq> [])"

section \<open>Data model (models/conversation.py)\<close>

text \<open>
  The tables are lists of rows in the order in which the storage engine returns them.
  A \<open>NULL\<close> in an \<open>is_active\<close> column fails every \<open>is_active == True\<close> filter and is
  modelled as \<open>False\<close>.
\<close>

record QuestionMaster =
  question_key :: string
  question_text :: string
  question_order :: int
  question_is_active :: bool

record AnswerMaster =
  answer_key :: string
  answer_question_key :: string
  answer_text :: string
  answer_order :: "int option"
  answer_is_active :: bool

record SessionRow =
  session_pk :: string
  session_language :: string

record ConversationEntry =
  ce_id :: nat
  ce_session_id :: "string option"
  ce_user_id :: "int option"
  ce_question_key :: string
  ce_answer_key :: "string option"
  ce_custom_input :: "string option"
  ce_response_text :: "string option"
  ce_select_type :: "string option"
  ce_created_at :: nat

record database =
  question_masters :: "QuestionMaster list"
  answer_masters :: "AnswerMaster list"
  sessions :: "SessionRow list"
  conversation_entries :: "ConversationEntry list"
  next_id :: nat

section \<open>Text similarity matcher (helpers/voice_matcher.py)\<close>

text \<open>
  \<open>difflib.SequenceMatcher(None, a, b).ratio()\<close> belongs to the Python library; it is the
  parameter \<open>ratio\<close>. Its floating-point value \<open>2.0 * M / T\<close> is taken as the exact
  rational number.
\<close>

definition calculate_similarity :: "(string \<Rightarrow> string \<Rightarrow> rat) \<Rightarrow> string \<Rightarrow> string \<Rightarrow> rat" where
  "calculate_similarity ratio text1 text2 =
     ratio (py_strip (py_lower text1)) (py_strip (py_lower text2))"

definition variation_map :: "(string \<times> string list) list" where
  "variation_map =
    [(''vegetarian'', [''veg'', ''veggie'', ''vegetarian'', ''pure veg'']),
     (''non-vegetarian'', [''non veg'', ''non-veg'', ''nonveg'', ''meat'']),
     (''vegan'', [''vegan'', ''plant based'', ''no dairy'']),
     (''chinese'', [''chinese'', ''chinese food'', ''indo chinese'']),
     (''italian'', [''italian'', ''pasta'', ''pizza'']),
     (''mexican'', [''mexican'', ''tex mex'', ''tacos'']),
     (''japanese'', [''japanese'', ''sushi'', ''ramen'']),
     (''hungry'', [''hungry'', ''very hungry'', ''starving'']),
     (''just snacking'', [''snacking'', ''snack'', ''light bite'']),
     (''super hungry'', [''super hungry'', ''very hungry'', ''famished'', ''starving''])]"

definition get_common_variations :: "string \<Rightarrow> string list" where
  "get_common_variations a_text =
     (let answer_lower = py_lower a_text
      in fold (\<lambda>(key, vals) variations.
                 if py_in key answer_lower then variations @ vals else variations)
           variation_map [])"

text \<open>The body of the loop over the answers, up to the final value of \<open>score\<close>.\<close>

definition answer_score :: "(string \<Rightarrow> string \<Rightarrow> rat) \<Rightarrow> string \<Rightarrow> AnswerMaster \<Rightarrow> rat" where
  "answer_score ratio voice_text answer =
     fold (\<lambda>variation score. max score (calculate_similarity ratio voice_text variation))
       (get_common_variations (answer_text answer))
       (calculate_similarity ratio voice_text (answer_text answer))"

definition active_answers :: "database \<Rightarrow> string \<Rightarrow> AnswerMaster list" where
  "active_answers db qkey =
     filter (\<lambda>a. answer_question_key a = qkey \<and> answer_is_active a) (answer_masters db)"

definition match_step ::
  "(string \<Rightarrow> string \<Rightarrow> rat) \<Rightarrow> string \<Rightarrow> rat \<Rightarrow> AnswerMaster \<Rightarrow> string option \<times> rat
     \<Rightarrow> string option \<times> rat" where
  "match_step ratio voice_text threshold answer st =
     (let score = answer_score ratio voice_text answer
      in if score > snd st \<and> score \<ge> threshold then (Some (answer_key answer), score) else st)"

definition match_voice_to_answer ::
  "(string \<Rightarrow> string \<Rightarrow> rat) \<Rightarrow> database \<Rightarrow> string \<Rightarrow> string \<Rightarrow> rat \<Rightarrow> string option" where
  "match_voice_to_answer ratio db voice_text qkey threshold =
     (let answers = active_answers db qkey
      in if answers = [] then None
         else fst (fold (match_step ratio voice_text threshold) answers (None, 0)))"

text \<open>The matcher as section 4.1 of the specification words it: every candidate is
  scored by the maximum of the ratio against its canonical text and against each of its
  lexical variants, and the first candidate that reaches the global maximum is chosen
  unless that maximum is below 0.6.\<close>

definition spec_candidate_score :: "(string \<Rightarrow> string \<Rightarrow> rat) \<Rightarrow> string \<Rightarrow> AnswerMaster \<Rightarrow> rat" where
  "spec_candidate_score ratio u a =
     Max (set (map (\<lambda>t. ratio (py_strip (py_lower u)) (py_strip (py_lower t)))
                 (answer_text a # get_common_variations (answer_text a))))"

definition spec_match :: "(string \<Rightarrow> string \<Rightarrow> rat) \<Rightarrow> database \<Rightarrow> string \<Rightarrow> string \<Rightarrow> string option" where
  "spec_match ratio db u qkey =
     (let cands = active_answers db qkey;
          best = Max (set (map (spec_candidate_score ratio u) cands))
      in if cands = [] then None
         else if best < 3 / 5 then None
         else map_option answer_key (find (\<lambda>a. spec_candidate_score ratio u a = best) cands))"

section \<open>Errors and the environment\<close>

datatype error = ValueError string | AttributeError string | OtherException string

text \<open>\<open>str(e)\<close> of an exception.\<close>

fun str_error :: "error \<Rightarrow> string" where
  "str_error (ValueError m) = m"
| "str_error (AttributeError m) = m"
| "str_error (OtherException m) = m"

text \<open>One row of the \<open>SELECT item_name, item_description, price, category\<close> queries of the
  suggestion service. The price column is numeric; the field holds its text \<open>str(price)\<close>,
  and \<open>None\<close> when the value is \<open>NULL\<close> or zero (the falsy values).\<close>

record item_row =
  item_name :: "string option"
  item_description :: "string option"
  price :: "string option"
  category :: "string option"

text \<open>
  Everything outside the repository that the core calls:
  \<^item> \<open>GEMINI_API_KEY\<close>: the environment variable read by gemini_service.py;
  \<^item> \<open>OPENAI_API_KEY\<close>: the environment variable read by
    openaiservice_question.py;
  \<^item> \<open>generate_content\<close>: the text of the model's reply to a prompt, or the exception
    raised by the call or by reading \<open>response.text\<close>;
  \<^item> \<open>commit_error\<close>: the exception raised by \<open>db.add\<close>, \<open>db.commit\<close> or
    \<open>db.refresh\<close> for a row (a constraint of the schema, a lost connection), if any;
  \<^item> \<open>now\<close>: \<open>datetime.now()\<close>;
  \<^item> \<open>order_items_query\<close>, \<open>cart_items_query\<close>, \<open>all_items_query\<close>: the rows returned
    by the three queries of food_suggestion_service.py for a dietary value and a limit,
    or the exception raised by \<open>db.execute\<close>.
  Reads of the question, answer and session tables are taken to succeed.
\<close>

record environment =
  GEMINI_API_KEY :: "string option"
  OPENAI_API_KEY :: "string option"
  generate_content :: "string \<Rightarrow> error + string"
  commit_error :: "ConversationEntry \<Rightarrow> error option"
  now :: nat
  order_items_query :: "string \<Rightarrow> int \<Rightarrow> error + item_row list"
  cart_items_query :: "string \<Rightarrow> int \<Rightarrow> error + item_row list"
  all_items_query :: "string \<Rightarrow> int \<Rightarrow> error + item_row list"

section \<open>Validators (helpers/validators.py)\<close>

definition validate_question_key :: "database \<Rightarrow> string \<Rightarrow> bool" where
  "validate_question_key db qkey =
     (find (\<lambda>q. question_key q = qkey \<and> question_is_active q) (question_masters db) \<noteq> None)"

definition validate_answer_key :: "database \<Rightarrow> string \<Rightarrow> string \<Rightarrow> bool" where
  "validate_answer_key db akey qkey =
     (find (\<lambda>a. answer_key a = akey \<and> answer_question_key a = qkey \<and> answer_is_active a)
        (answer_masters db) \<noteq> None)"

text \<open>The dictionaries \<open>{"answer_key": .., "answer_text": ..}\<close> are pairs.\<close>

definition get_active_answers_for_question :: "database \<Rightarrow> string \<Rightarrow> (string \<times> string) list" where
  "get_active_answers_for_question db qkey =
     map (\<lambda>answer. (answer_key answer, answer_text answer)) (active_answers db qkey)"

section \<open>Intent classifier (services/gemini_service.py)\<close>

definition SORRY_DONT_UNDERSTAND :: string where
  "SORRY_DONT_UNDERSTAND = ''SORRY_DONT_UNDERSTAND''"

definition SUGGESTION_REQUEST :: string where
  "SUGGESTION_REQUEST = ''SUGGESTION_REQUEST''"

text \<open>\<open>GeminiAnalyzer.__init__\<close>: raises when the key is missing or empty.\<close>

definition GeminiAnalyzer_init :: "environment \<Rightarrow> error + unit" where
  "GeminiAnalyzer_init env =
     (if \<not> truthy (GEMINI_API_KEY env)
      then Inl (ValueError ''GEMINI_API_KEY not found in environment variables'')
      else Inr ())"

text \<open>\<open>"sep".join(xs)\<close>.\<close>

fun join :: "string \<Rightarrow> string list \<Rightarrow> string" where
  "join sep [] = []"
| "join sep [x] = x"
| "join sep (x # y # ys) = x @ sep @ join sep (y # ys)"

text \<open>An \<open>Optional[str]\<close> inside an f-string.\<close>

fun fstr :: "string option \<Rightarrow> string" where
  "fstr None = ''None''"
| "fstr (Some s) = s"

definition prompt_head :: string where
  "prompt_head =
      ''You are an intelligent assistant that categorizes user responses '' @
      ''into predefined categories.'' @ [CHR 0x0A, CHR 0x0A] @ ''Given the user'' @
      [CHR 0x27] @ ''s message, determine which category it best fits into.'' @
      [CHR 0x0A, CHR 0x0A] @ ''User Message: '' @ [CHR 0x22]"

definition prompt_middle :: string where
  "prompt_middle =
      [CHR 0x22, CHR 0x0A, CHR 0x0A] @ ''Available Categories:'' @ [CHR 0x0A]"

definition prompt_tail :: string where
  "prompt_tail =
      [CHR 0x0A, CHR 0x0A] @ ''Instructions:'' @ [CHR 0x0A] @ ''1. Analyze the user'' @
      [CHR 0x27] @ ''s message carefully'' @ [CHR 0x0A] @
      ''2. Match it with the most appropriate category from the list'' @ [CHR 0x0A] @
      ''3. Return ONLY the category key (answer_key), nothing else'' @ [CHR 0x0A] @
      ''4. If the user is asking for suggestions, recommendations, or '' @
      ''general questions (not selecting a category), return '' @ [CHR 0x22] @
      ''SUGGESTION_REQUEST'' @ [CHR 0x22, CHR 0x0A] @
      ''5. If no category matches well and it'' @ [CHR 0x27] @
      ''s not a suggestion request, return '' @ [CHR 0x22] @ ''NONE'' @
      [CHR 0x22, CHR 0x0A, CHR 0x0A] @ ''Response:''"

definition build_prompt :: "string option \<Rightarrow> (string \<times> string) list \<Rightarrow> string" where
  "build_prompt user_text available_answers =
     (let answer_options =
            join [CHR 0x0A] (map (\<lambda>(k, t). ''- '' @ k @ '': '' @ t) available_answers)
      in prompt_head @ fstr user_text @ prompt_middle @ answer_options @ prompt_tail)"

definition analyze_user_response ::
  "environment \<Rightarrow> string option \<Rightarrow> string \<Rightarrow> (string \<times> string) list \<Rightarrow> string option" where
  "analyze_user_response env user_text qkey available_answers =
     (if available_answers = [] then None
      else case generate_content env (build_prompt user_text available_answers) of
             Inl e \<Rightarrow> None
           | Inr response_text \<Rightarrow>
               (let answer = py_strip response_text;
                    valid_keys = map fst available_answers
                in if answer \<in> set valid_keys then Some answer
                   else if answer = ''NONE'' then Some SORRY_DONT_UNDERSTAND
                   else if answer = ''SUGGESTION_REQUEST'' then Some SUGGESTION_REQUEST
                   else Some SORRY_DONT_UNDERSTAND))"

section \<open>The other analyzer (services/openaiservice_question.py)\<close>

text \<open>\<open>OpenAIAnalyzer.__init__\<close>: raises when the key is missing or empty. The Recorder
  constructs an \<open>OpenAIAnalyzer\<close> as its first statement and does not use it further.\<close>

definition OpenAIAnalyzer_init :: "environment \<Rightarrow> error + unit" where
  "OpenAIAnalyzer_init env =
     (if \<not> truthy (OPENAI_API_KEY env)
      then Inl (ValueError ''OPENAI_API_KEY not found in environment variables'')
      else Inr ())"

section \<open>Suggestion fallback generator (services/food_suggestion_service.py)\<close>

record suggestion =
  s_item_name :: string
  s_description :: string
  s_price :: string
  s_category :: string
  s_source :: string

text \<open>\<open>x or default\<close> on an \<open>Optional[str]\<close>.\<close>

fun or_default :: "string option \<Rightarrow> string \<Rightarrow> string" where
  "or_default None d = d"
| "or_default (Some s) d = (if s = [] then d else s)"

definition row_suggestion :: "string \<Rightarrow> item_row \<Rightarrow> suggestion" where
  "row_suggestion src row =
     \<lparr>s_item_name = or_default (item_name row) ''Unknown Item'',
      s_description = or_default (item_description row) ''Delicious food item'',
      s_price = (case price row of Some p \<Rightarrow> ''$'' @ p | None \<Rightarrow> ''Price on request''),
      s_category = or_default (category row) ''Food'',
      s_source = src\<rparr>"

text \<open>The three private helpers catch every exception of their query and return the
  empty list; they are named without the leading underscore of the source.\<close>

definition get_suggestions_from_orders :: "environment \<Rightarrow> string \<Rightarrow> int \<Rightarrow> error + suggestion list" where
  "get_suggestions_from_orders env diet_value limit =
     (case order_items_query env diet_value limit of
        Inr rows \<Rightarrow> Inr (map (row_suggestion ''Popular Orders'') rows)
      | Inl e \<Rightarrow> Inr [])"

definition get_suggestions_from_cart :: "environment \<Rightarrow> string \<Rightarrow> int \<Rightarrow> error + suggestion list" where
  "get_suggestions_from_cart env diet_value limit =
     (case cart_items_query env diet_value limit of
        Inr rows \<Rightarrow> Inr (map (row_suggestion ''Cart Items'') rows)
      | Inl e \<Rightarrow> Inr [])"

definition get_general_suggestions :: "environment \<Rightarrow> string \<Rightarrow> int \<Rightarrow> error + suggestion list" where
  "get_general_suggestions env diet_value limit =
     (case all_items_query env diet_value limit of
        Inr rows \<Rightarrow> Inr (map (row_suggestion ''General'') rows)
      | Inl e \<Rightarrow> Inr [])"

definition fallback_veg :: "suggestion list" where
  "fallback_veg =
    [\<lparr>s_item_name = ''Vegetable Pizza'', s_description = ''Fresh vegetables on crispy crust'',
      s_price = ''$12.99'', s_category = ''Pizza'', s_source = ''Fallback''\<rparr>,
     \<lparr>s_item_name = ''Caesar Salad'', s_description = ''Fresh lettuce with vegetarian dressing'',
      s_price = ''$8.99'', s_category = ''Salad'', s_source = ''Fallback''\<rparr>,
     \<lparr>s_item_name = ''Pasta Primavera'', s_description = ''Mixed vegetables with pasta'',
      s_price = ''$14.99'', s_category = ''Pasta'', s_source = ''Fallback''\<rparr>]"

definition fallback_non_veg :: "suggestion list" where
  "fallback_non_veg =
    [\<lparr>s_item_name = ''Chicken Burger'',
      s_description = ''Juicy chicken patty with fresh vegetables'',
      s_price = ''$11.99'', s_category = ''Burger'', s_source = ''Fallback''\<rparr>,
     \<lparr>s_item_name = ''Beef Steak'', s_description = ''Tender beef steak cooked to perfection'',
      s_price = ''$24.99'', s_category = ''Main Course'', s_source = ''Fallback''\<rparr>,
     \<lparr>s_item_name = ''Fish & Chips'', s_description = ''Crispy fish with golden fries'',
      s_price = ''$16.99'', s_category = ''Seafood'', s_source = ''Fallback''\<rparr>]"

definition fallback_vegan :: "suggestion list" where
  "fallback_vegan =
    [\<lparr>s_item_name = ''Vegan Buddha Bowl'',
      s_description = ''Quinoa, vegetables, and tahini dressing'',
      s_price = ''$13.99'', s_category = ''Bowl'', s_source = ''Fallback''\<rparr>,
     \<lparr>s_item_name = ''Vegan Tacos'',
      s_description = ''Plant-based protein with fresh vegetables'',
      s_price = ''$10.99'', s_category = ''Mexican'', s_source = ''Fallback''\<rparr>,
     \<lparr>s_item_name = ''Vegan Smoothie'', s_description = ''Mixed fruits and plant-based milk'',
      s_price = ''$6.99'', s_category = ''Beverage'', s_source = ''Fallback''\<rparr>]"

definition get_fallback_suggestions :: "string \<Rightarrow> suggestion list" where
  "get_fallback_suggestions dietary_preference =
     (case map_of [(''veg'', fallback_veg), (''non-veg'', fallback_non_veg),
                   (''vegan'', fallback_vegan)] (py_lower dietary_preference) of
        Some l \<Rightarrow> l
      | None \<Rightarrow> fallback_veg)"

text \<open>\<open>xs[:n]\<close> for an integer \<open>n\<close>: a negative \<open>n\<close> counts from the end.\<close>

definition py_take :: "int \<Rightarrow> 'a list \<Rightarrow> 'a list" where
  "py_take n xs = (if 0 \<le> n then take (nat n) xs else take (nat (int (length xs) + n)) xs)"

text \<open>The body of the \<open>try\<close> block of \<open>get_suggestions_by_dietary_preference\<close>; an
  exception of one of its steps leaves the block.\<close>

definition collect_suggestions :: "environment \<Rightarrow> string \<Rightarrow> int \<Rightarrow> error + suggestion list" where
  "collect_suggestions env diet_value limit =
     (case get_suggestions_from_orders env diet_value limit of
        Inl e \<Rightarrow> Inl e
      | Inr s1 \<Rightarrow>
         (case (if int (length s1) < limit
                then map_sum id (\<lambda>c. s1 @ c)
                       (get_suggestions_from_cart env diet_value (limit - int (length s1)))
                else Inr s1) of
            Inl e \<Rightarrow> Inl e
          | Inr s2 \<Rightarrow>
             (case (if int (length s2) < limit
                    then map_sum id (\<lambda>g. s2 @ g)
                           (get_general_suggestions env diet_value (limit - int (length s2)))
                    else Inr s2) of
                Inl e \<Rightarrow> Inl e
              | Inr s3 \<Rightarrow> Inr (py_take limit s3))))"

definition get_suggestions_by_dietary_preference :: "environment \<Rightarrow> string \<Rightarrow> int \<Rightarrow> suggestion list" where
  "get_suggestions_by_dietary_preference env dietary_preference limit =
     (let diet_value =
            (case map_of [(''veg'', ''vegetarian''), (''non-veg'', ''non-vegetarian''),
                          (''vegan'', ''vegan'')] (py_lower dietary_preference) of
               Some v \<Rightarrow> v
             | None \<Rightarrow> ''vegetarian'')
      in case collect_suggestions env diet_value limit of
           Inr suggestions \<Rightarrow> suggestions
         | Inl e \<Rightarrow> get_fallback_suggestions dietary_preference)"

text \<open>\<open>str(i)\<close> for a natural number.\<close>

fun str_nat :: "nat \<Rightarrow> string" where
  "str_nat n =
     (if n < 10 then [char_of (48 + n)]
      else str_nat (n div 10) @ [char_of (48 + n mod 10)])"

definition format_item :: "nat \<Rightarrow> suggestion \<Rightarrow> string" where
  "format_item i suggestion =
     str_nat i @ ''. **'' @ s_item_name suggestion @ ''**'' @ [CHR 0x0A] @
     ''   '' @ s_description suggestion @ [CHR 0x0A] @
     ''   Price: '' @ s_price suggestion @ [CHR 0x0A] @
     ''   Category: '' @ s_category suggestion @ [CHR 0x0A, CHR 0x0A]"

text \<open>The loop \<open>for i, suggestion in enumerate(suggestions, 1)\<close> appending to
  \<open>response\<close>.\<close>

fun format_items :: "nat \<Rightarrow> suggestion list \<Rightarrow> string \<Rightarrow> string" where
  "format_items i [] response = response"
| "format_items i (s # ss) response = format_items (Suc i) ss (response @ format_item i s)"

definition format_suggestions_response :: "suggestion list \<Rightarrow> string \<Rightarrow> string" where
  "format_suggestions_response suggestions dietary_preference =
     (if suggestions = []
      then ''Sorry, I couldn'' @ [CHR 0x27] @ ''t find any '' @ dietary_preference @
           '' food suggestions at the moment. Please try again later.''
      else format_items 1 suggestions
             (''Here are some great '' @ dietary_preference @
              '' food suggestions for you:'' @ [CHR 0x0A, CHR 0x0A]) @
           ''Would you like to know more about any of these items or need '' @
           ''different suggestions?'')"

text \<open>The table \<open>language_messages\<close>. The Hindi texts use code points above 255; they
  are written as their UTF-8 bytes, and are only concatenated into the reply.\<close>

record messages =
  intro :: string
  fallback :: string
  follow_up :: string

definition messages_en :: "string \<Rightarrow> messages" where
  "messages_en dietary_preference =
    \<lparr>intro =
      ''Here are some great '' @ dietary_preference @
      '' food suggestions for you:'',
     fallback =
      ''Sorry, I couldn'' @ [CHR 0x27] @ ''t find any '' @ dietary_preference @
      '' food suggestions at the moment. Please try again later.'',
     follow_up =
      ''Would you like to know more about any of these items or need '' @
      ''different suggestions?''\<rparr>"

definition messages_es :: "string \<Rightarrow> messages" where
  "messages_es dietary_preference =
    \<lparr>intro =
      ''Aqu'' @ [CHR 0xED] @ '' tienes algunas excelentes sugerencias de comida '' @ dietary_preference @
      '' para ti:'',
     fallback =
      ''Lo siento, no pude encontrar sugerencias de comida '' @ dietary_preference @
      '' en este momento. Por favor, int'' @ [CHR 0xE9] @ ''ntalo de nuevo m'' @ [CHR 0xE1] @
      ''s tarde.'',
     follow_up =
      [CHR 0xBF] @ ''Te gustar'' @ [CHR 0xED] @ ''a saber m'' @ [CHR 0xE1] @
      ''s sobre alguno de estos art'' @ [CHR 0xED] @
      ''culos o necesitas sugerencias diferentes?''\<rparr>"

definition messages_fr :: "string \<Rightarrow> messages" where
  "messages_fr dietary_preference =
    \<lparr>intro =
      ''Voici quelques excellentes suggestions de nourriture '' @ dietary_preference @
      '' pour vous:'',
     fallback =
      ''D'' @ [CHR 0xE9] @ ''sol'' @ [CHR 0xE9] @ '', je n'' @ [CHR 0x27] @
      ''ai pas pu trouver de suggestions de nourriture '' @ dietary_preference @
      '' pour le moment. Veuillez r'' @ [CHR 0xE9] @ ''essayer plus tard.'',
     follow_up =
      ''Aimeriez-vous en savoir plus sur l'' @ [CHR 0x27] @
      ''un de ces articles ou avez-vous besoin de suggestions diff'' @ [CHR 0xE9] @
      ''rentes?''\<rparr>"

definition messages_hi :: "string \<Rightarrow> messages" where
  "messages_hi dietary_preference =
    \<lparr>intro =
      [CHR 0xE0, CHR 0xA4, CHR 0xAF, CHR 0xE0, CHR 0xA4, CHR 0xB9, CHR 0xE0, CHR 0xA4,
      CHR 0xBE, CHR 0xE0, CHR 0xA4, CHR 0x81] @
      '' '' @
      [CHR 0xE0, CHR 0xA4, CHR 0x86, CHR 0xE0, CHR 0xA4, CHR 0xAA, CHR 0xE0, CHR 0xA4,
      CHR 0x95, CHR 0xE0, CHR 0xA5, CHR 0x87] @
      '' '' @
      [CHR 0xE0, CHR 0xA4, CHR 0xB2, CHR 0xE0, CHR 0xA4, CHR 0xBF, CHR 0xE0, CHR 0xA4, CHR 0x8F] @
      '' '' @
      [CHR 0xE0, CHR 0xA4, CHR 0x95, CHR 0xE0, CHR 0xA5, CHR 0x81, CHR 0xE0, CHR 0xA4, CHR 0x9B] @
      '' '' @
      [CHR 0xE0, CHR 0xA4, CHR 0xAC, CHR 0xE0, CHR 0xA5, CHR 0x87, CHR 0xE0, CHR 0xA4,
      CHR 0xB9, CHR 0xE0, CHR 0xA4, CHR 0xA4, CHR 0xE0, CHR 0xA4, CHR 0xB0, CHR 0xE0,
      CHR 0xA5, CHR 0x80, CHR 0xE0, CHR 0xA4, CHR 0xA8] @
      '' '' @ dietary_preference @
      '' '' @
      [CHR 0xE0, CHR 0xA4, CHR 0xAD, CHR 0xE0, CHR 0xA5, CHR 0x8B, CHR 0xE0, CHR 0xA4,
      CHR 0x9C, CHR 0xE0, CHR 0xA4, CHR 0xA8] @
      '' '' @
      [CHR 0xE0, CHR 0xA4, CHR 0xB8, CHR 0xE0, CHR 0xA5, CHR 0x81, CHR 0xE0, CHR 0xA4,
      CHR 0x9D, CHR 0xE0, CHR 0xA4, CHR 0xBE, CHR 0xE0, CHR 0xA4, CHR 0xB5] @
      '' '' @
      [CHR 0xE0, CHR 0xA4, CHR 0xB9, CHR 0xE0, CHR 0xA5, CHR 0x88, CHR 0xE0, CHR 0xA4, CHR 0x82] @
      '':'',
     fallback =
      [CHR 0xE0, CHR 0xA4, CHR 0x95, CHR 0xE0, CHR 0xA5, CHR 0x8D, CHR 0xE0, CHR 0xA4,
      CHR 0xB7, CHR 0xE0, CHR 0xA4, CHR 0xAE, CHR 0xE0, CHR 0xA4, CHR 0xBE] @
      '' '' @
      [CHR 0xE0, CHR 0xA4, CHR 0x95, CHR 0xE0, CHR 0xA4, CHR 0xB0, CHR 0xE0, CHR 0xA5,
      CHR 0x87, CHR 0xE0, CHR 0xA4, CHR 0x82] @
      '', '' @
      [CHR 0xE0, CHR 0xA4, CHR 0xAE, CHR 0xE0, CHR 0xA5, CHR 0x88, CHR 0xE0, CHR 0xA4, CHR 0x82] @
      '' '' @ [CHR 0xE0, CHR 0xA4, CHR 0x87, CHR 0xE0, CHR 0xA4, CHR 0xB8] @ '' '' @
      [CHR 0xE0, CHR 0xA4, CHR 0xB8, CHR 0xE0, CHR 0xA4, CHR 0xAE, CHR 0xE0, CHR 0xA4, CHR 0xAF] @
      '' '' @
      [CHR 0xE0, CHR 0xA4, CHR 0x95, CHR 0xE0, CHR 0xA5, CHR 0x8B, CHR 0xE0, CHR 0xA4, CHR 0x88] @
      '' '' @ dietary_preference @
      '' '' @
      [CHR 0xE0, CHR 0xA4, CHR 0xAD, CHR 0xE0, CHR 0xA5, CHR 0x8B, CHR 0xE0, CHR 0xA4,
      CHR 0x9C, CHR 0xE0, CHR 0xA4, CHR 0xA8] @
      '' '' @
      [CHR 0xE0, CHR 0xA4, CHR 0xB8, CHR 0xE0, CHR 0xA5, CHR 0x81, CHR 0xE0, CHR 0xA4,
      CHR 0x9D, CHR 0xE0, CHR 0xA4, CHR 0xBE, CHR 0xE0, CHR 0xA4, CHR 0xB5] @
      '' '' @
      [CHR 0xE0, CHR 0xA4, CHR 0xA8, CHR 0xE0, CHR 0xA4, CHR 0xB9, CHR 0xE0, CHR 0xA5,
      CHR 0x80, CHR 0xE0, CHR 0xA4, CHR 0x82] @
      '' '' @
      [CHR 0xE0, CHR 0xA4, CHR 0x96, CHR 0xE0, CHR 0xA5, CHR 0x8B, CHR 0xE0, CHR 0xA4, CHR 0x9C] @
      '' '' @
      [CHR 0xE0, CHR 0xA4, CHR 0xB8, CHR 0xE0, CHR 0xA4, CHR 0x95, CHR 0xE0, CHR 0xA4,
      CHR 0xBE, CHR 0xE0, CHR 0xA5, CHR 0xA4] @
      '' '' @
      [CHR 0xE0, CHR 0xA4, CHR 0x95, CHR 0xE0, CHR 0xA5, CHR 0x83, CHR 0xE0, CHR 0xA4,
      CHR 0xAA, CHR 0xE0, CHR 0xA4, CHR 0xAF, CHR 0xE0, CHR 0xA4, CHR 0xBE] @
      '' '' @
      [CHR 0xE0, CHR 0xA4, CHR 0xAC, CHR 0xE0, CHR 0xA4, CHR 0xBE, CHR 0xE0, CHR 0xA4, CHR 0xA6] @
      '' '' @
      [CHR 0xE0, CHR 0xA4, CHR 0xAE, CHR 0xE0, CHR 0xA5, CHR 0x87, CHR 0xE0, CHR 0xA4, CHR 0x82] @
      '' '' @
      [CHR 0xE0, CHR 0xA4, CHR 0xAA, CHR 0xE0, CHR 0xA5, CHR 0x81, CHR 0xE0, CHR 0xA4,
      CHR 0xA8, CHR 0xE0, CHR 0xA4, CHR 0x83] @
      '' '' @
      [CHR 0xE0, CHR 0xA4, CHR 0xAA, CHR 0xE0, CHR 0xA5, CHR 0x8D, CHR 0xE0, CHR 0xA4,
      CHR 0xB0, CHR 0xE0, CHR 0xA4, CHR 0xAF, CHR 0xE0, CHR 0xA4, CHR 0xBE, CHR 0xE0,
      CHR 0xA4, CHR 0xB8] @
      '' '' @
      [CHR 0xE0, CHR 0xA4, CHR 0x95, CHR 0xE0, CHR 0xA4, CHR 0xB0, CHR 0xE0, CHR 0xA5,
      CHR 0x87, CHR 0xE0, CHR 0xA4, CHR 0x82, CHR 0xE0, CHR 0xA5, CHR 0xA4],
     follow_up =
      [CHR 0xE0, CHR 0xA4, CHR 0x95, CHR 0xE0, CHR 0xA5, CHR 0x8D, CHR 0xE0, CHR 0xA4,
      CHR 0xAF, CHR 0xE0, CHR 0xA4, CHR 0xBE] @
      '' '' @ [CHR 0xE0, CHR 0xA4, CHR 0x86, CHR 0xE0, CHR 0xA4, CHR 0xAA] @ '' '' @
      [CHR 0xE0, CHR 0xA4, CHR 0x87, CHR 0xE0, CHR 0xA4, CHR 0xA8, CHR 0xE0, CHR 0xA4,
      CHR 0xAE, CHR 0xE0, CHR 0xA5, CHR 0x87, CHR 0xE0, CHR 0xA4, CHR 0x82] @
      '' '' @ [CHR 0xE0, CHR 0xA4, CHR 0xB8, CHR 0xE0, CHR 0xA5, CHR 0x87] @ '' '' @
      [CHR 0xE0, CHR 0xA4, CHR 0x95, CHR 0xE0, CHR 0xA4, CHR 0xBF, CHR 0xE0, CHR 0xA4,
      CHR 0xB8, CHR 0xE0, CHR 0xA5, CHR 0x80] @
      '' '' @
      [CHR 0xE0, CHR 0xA4, CHR 0x86, CHR 0xE0, CHR 0xA4, CHR 0x87, CHR 0xE0, CHR 0xA4,
      CHR 0x9F, CHR 0xE0, CHR 0xA4, CHR 0xAE] @
      '' '' @ [CHR 0xE0, CHR 0xA4, CHR 0x95, CHR 0xE0, CHR 0xA5, CHR 0x87] @ '' '' @
      [CHR 0xE0, CHR 0xA4, CHR 0xAC, CHR 0xE0, CHR 0xA4, CHR 0xBE, CHR 0xE0, CHR 0xA4,
      CHR 0xB0, CHR 0xE0, CHR 0xA5, CHR 0x87] @
      '' '' @
      [CHR 0xE0, CHR 0xA4, CHR 0xAE, CHR 0xE0, CHR 0xA5, CHR 0x87, CHR 0xE0, CHR 0xA4, CHR 0x82] @
      '' '' @
      [CHR 0xE0, CHR 0xA4, CHR 0x85, CHR 0xE0, CHR 0xA4, CHR 0xA7, CHR 0xE0, CHR 0xA4,
      CHR 0xBF, CHR 0xE0, CHR 0xA4, CHR 0x95] @
      '' '' @
      [CHR 0xE0, CHR 0xA4, CHR 0x9C, CHR 0xE0, CHR 0xA4, CHR 0xBE, CHR 0xE0, CHR 0xA4,
      CHR 0xA8, CHR 0xE0, CHR 0xA4, CHR 0xA8, CHR 0xE0, CHR 0xA4, CHR 0xBE] @
      '' '' @
      [CHR 0xE0, CHR 0xA4, CHR 0x9A, CHR 0xE0, CHR 0xA4, CHR 0xBE, CHR 0xE0, CHR 0xA4,
      CHR 0xB9, CHR 0xE0, CHR 0xA5, CHR 0x87, CHR 0xE0, CHR 0xA4, CHR 0x82, CHR 0xE0,
      CHR 0xA4, CHR 0x97, CHR 0xE0, CHR 0xA5, CHR 0x87] @
      '' '' @ [CHR 0xE0, CHR 0xA4, CHR 0xAF, CHR 0xE0, CHR 0xA4, CHR 0xBE] @ '' '' @
      [CHR 0xE0, CHR 0xA4, CHR 0x86, CHR 0xE0, CHR 0xA4, CHR 0xAA, CHR 0xE0, CHR 0xA4,
      CHR 0x95, CHR 0xE0, CHR 0xA5, CHR 0x8B] @
      '' '' @
      [CHR 0xE0, CHR 0xA4, CHR 0x85, CHR 0xE0, CHR 0xA4, CHR 0xB2, CHR 0xE0, CHR 0xA4, CHR 0x97] @
      '' '' @
      [CHR 0xE0, CHR 0xA4, CHR 0xB8, CHR 0xE0, CHR 0xA5, CHR 0x81, CHR 0xE0, CHR 0xA4,
      CHR 0x9D, CHR 0xE0, CHR 0xA4, CHR 0xBE, CHR 0xE0, CHR 0xA4, CHR 0xB5] @
      '' '' @
      [CHR 0xE0, CHR 0xA4, CHR 0x9A, CHR 0xE0, CHR 0xA4, CHR 0xBE, CHR 0xE0, CHR 0xA4,
      CHR 0xB9, CHR 0xE0, CHR 0xA4, CHR 0xBF, CHR 0xE0, CHR 0xA4, CHR 0x8F] @
      ''?''\<rparr>"

definition language_messages :: "string \<Rightarrow> (string \<times> messages) list" where
  "language_messages dietary_preference =
     [(''en'', messages_en dietary_preference), (''es'', messages_es dietary_preference),
      (''fr'', messages_fr dietary_preference), (''hi'', messages_hi dietary_preference)]"

definition format_suggestions_response_with_language ::
  "suggestion list \<Rightarrow> string \<Rightarrow> string \<Rightarrow> string" where
  "format_suggestions_response_with_language suggestions dietary_preference language =
     (let msgs = (case map_of (language_messages dietary_preference) language of
                    Some m \<Rightarrow> m
                  | None \<Rightarrow> messages_en dietary_preference)
      in if suggestions = [] then fallback msgs
         else format_items 1 suggestions (intro msgs @ [CHR 0x0A, CHR 0x0A]) @ follow_up msgs)"

text \<open>The template of a language as section 4.7 of the specification words it: the
  template of the requested language, and the template of the default language \<open>en\<close>
  when the requested language has none.\<close>

definition template_for :: "string \<Rightarrow> string \<Rightarrow> messages" where
  "template_for language dietary_preference =
     (if language = ''es'' then messages_es dietary_preference
      else if language = ''fr'' then messages_fr dietary_preference
      else if language = ''hi'' then messages_hi dietary_preference
      else messages_en dietary_preference)"

section \<open>Schemas (app/schemas/conversation.py)\<close>

record ConversationEntryCreate =
  req_session_id :: "string option"
  req_user_id :: "int option"
  req_question_key :: string
  req_answer_key :: "string option"
  req_custom_input :: "string option"
  req_responseText :: "string option"
  req_select_type :: string

text \<open>The validators \<open>convert_null_string\<close> and \<open>convert_null_string_response\<close>, which run
  when a \<open>ConversationEntryCreate\<close> is constructed.\<close>

definition convert_null_string :: "string option \<Rightarrow> string option" where
  "convert_null_string v = (if v = Some ''null'' \<or> v = Some ''NULL'' \<or> v = None then None else v)"

record ConversationEntryResponse =
  resp_id :: nat
  resp_session_id :: "string option"
  resp_user_id :: "int option"
  resp_question_key :: string
  resp_answer_key :: "string option"
  resp_custom_input :: "string option"
  resp_responseText :: "string option"
  resp_created_at :: nat

text \<open>\<open>ConversationEntryResponse.from_orm\<close>: the stored row has no attribute
  \<open>responseText\<close> (its column is \<open>response_text\<close>), so that field takes its default.\<close>

definition from_orm :: "ConversationEntry \<Rightarrow> ConversationEntryResponse" where
  "from_orm e =
     \<lparr>resp_id = ce_id e, resp_session_id = ce_session_id e, resp_user_id = ce_user_id e,
      resp_question_key = ce_question_key e, resp_answer_key = ce_answer_key e,
      resp_custom_input = ce_custom_input e, resp_responseText = None,
      resp_created_at = ce_created_at e\<rparr>"

section \<open>Conversation service (services/conversation_service.py)\<close>

text \<open>The row that \<open>create_conversation_entry\<close> builds once the question key is
  validated: the answer key is checked when it is truthy and set to \<open>None\<close> when the
  check fails, and \<open>response_text\<close> is taken from \<open>responseText\<close> when that is truthy.\<close>

definition db_entry_of :: "environment \<Rightarrow> database \<Rightarrow> ConversationEntryCreate \<Rightarrow> ConversationEntry" where
  "db_entry_of env db entry_data =
     (let akey = (case req_answer_key entry_data of
                    None \<Rightarrow> None
                  | Some k \<Rightarrow>
                      if k \<noteq> [] \<and> \<not> validate_answer_key db k (req_question_key entry_data)
                      then None else Some k);
          response_text = (if truthy (req_responseText entry_data)
                           then req_responseText entry_data else None)
      in \<lparr>ce_id = next_id db,
          ce_session_id = req_session_id entry_data,
          ce_user_id = req_user_id entry_data,
          ce_question_key = req_question_key entry_data,
          ce_answer_key = akey,
          ce_custom_input = req_custom_input entry_data,
          ce_response_text = response_text,
          ce_select_type = Some (req_select_type entry_data),
          ce_created_at = now env\<rparr>)"

text \<open>The Recorder. Its first statement is \<open>ai_analyzer = OpenAIAnalyzer()\<close>, which
  raises before the question key is validated when the key of that analyzer is not set.
  A failed \<open>commit\<close> is rolled back: the database is unchanged.\<close>

definition create_conversation_entry ::
  "environment \<Rightarrow> database \<Rightarrow> ConversationEntryCreate
     \<Rightarrow> (error + ConversationEntryResponse) \<times> database" where
  "create_conversation_entry env db entry_data =
     (case OpenAIAnalyzer_init env of
        Inl e \<Rightarrow> (Inl e, db)
      | Inr ai_analyzer \<Rightarrow>
          if \<not> validate_question_key db (req_question_key entry_data)
          then (Inl (ValueError (''Invalid question key: '' @ req_question_key entry_data)), db)
          else
            let db_entry = db_entry_of env db entry_data
            in case commit_error env db_entry of
                 Some e \<Rightarrow>
                   (Inl (ValueError (''Failed to create conversation entry: '' @ str_error e)),
                    db)
               | None \<Rightarrow>
                   (Inr (from_orm db_entry),
                    db\<lparr>conversation_entries := conversation_entries db @ [db_entry],
                       next_id := Suc (next_id db)\<rparr>))"

definition sorry_message :: string where
  "sorry_message =
      ''Sorry, I don'' @ [CHR 0x27] @
      ''t understand your request. Could you please rephrase or select '' @
      ''from the available options?''"

definition handle_sorry_response :: "environment \<Rightarrow> ConversationEntryCreate \<Rightarrow> ConversationEntryResponse" where
  "handle_sorry_response env entry_data =
     \<lparr>resp_id = 0,
      resp_session_id = req_session_id entry_data,
      resp_user_id = req_user_id entry_data,
      resp_question_key = req_question_key entry_data,
      resp_answer_key = Some SORRY_DONT_UNDERSTAND,
      resp_custom_input = req_custom_input entry_data,
      resp_responseText = Some sorry_message,
      resp_created_at = now env\<rparr>"

text \<open>\<open>_extract_dietary_preference\<close>; \<open>None.lower()\<close> raises.\<close>

definition extract_dietary_preference :: "string option \<Rightarrow> error + string" where
  "extract_dietary_preference user_text =
     (case user_text of
        None \<Rightarrow> Inl (AttributeError ([CHR 0x27] @ ''NoneType'' @ [CHR 0x27] @ '' object has no attribute '' @ [CHR 0x27] @
            ''lower'' @ [CHR 0x27]))
      | Some t \<Rightarrow>
          (let user_text_lower = py_lower t
           in if py_in ''vegan'' user_text_lower then Inr ''vegan''
              else if py_in ''non-veg'' user_text_lower \<or> py_in ''non veg'' user_text_lower
                      \<or> py_in ''nonvegetarian'' user_text_lower then Inr ''non-veg''
              else if py_in ''veg'' user_text_lower \<or> py_in ''vegetarian'' user_text_lower
                   then Inr ''veg''
              else Inr ''veg''))"

definition handle_suggestion_request ::
  "environment \<Rightarrow> ConversationEntryCreate \<Rightarrow> string option \<Rightarrow> ConversationEntryResponse" where
  "handle_suggestion_request env entry_data user_text =
     (case extract_dietary_preference user_text of
        Inl e \<Rightarrow> handle_sorry_response env entry_data
      | Inr dietary_preference \<Rightarrow>
          (let suggestions = get_suggestions_by_dietary_preference env dietary_preference 5;
               suggestion_response = format_suggestions_response suggestions dietary_preference
           in \<lparr>resp_id = 0,
               resp_session_id = req_session_id entry_data,
               resp_user_id = req_user_id entry_data,
               resp_question_key = req_question_key entry_data,
               resp_answer_key = Some SUGGESTION_REQUEST,
               resp_custom_input = req_custom_input entry_data,
               resp_responseText = Some suggestion_response,
               resp_created_at = now env\<rparr>))"

definition get_user_language :: "database \<Rightarrow> string option \<Rightarrow> string" where
  "get_user_language db session_id =
     (case find (\<lambda>s. Some (session_pk s) = session_id) (sessions db) of
        Some s \<Rightarrow> if session_language s \<noteq> [] then session_language s else ''en''
      | None \<Rightarrow> ''en'')"

text \<open>\<open>get_food_suggestions\<close>: the result is \<open>Inr\<close> on every path, the handler of the
  \<open>try\<close> block returning a fixed sentence.\<close>

definition get_food_suggestions :: "environment \<Rightarrow> string option \<Rightarrow> string \<Rightarrow> error + string" where
  "get_food_suggestions env user_text user_language =
     (case extract_dietary_preference user_text of
        Inl e \<Rightarrow>
          Inr (''Sorry, I couldn'' @ [CHR 0x27] @
               ''t get food suggestions at the moment. Please try again later.'')
      | Inr dietary_preference \<Rightarrow>
          Inr (format_suggestions_response_with_language
                 (get_suggestions_by_dietary_preference env dietary_preference 5)
                 dietary_preference user_language))"

text \<open>The first part of \<open>process_select_answer\<close> (up to the construction of
  \<open>entry_data\<close>): the final value of the local variable \<open>answer_key\<close>.\<close>

definition select_answer_key ::
  "environment \<Rightarrow> database \<Rightarrow> string \<Rightarrow> string option \<Rightarrow> string option \<Rightarrow> string option" where
  "select_answer_key env db qkey answer_key0 response_text =
     (if truthy response_text then
        (case GeminiAnalyzer_init env of
           Inl e \<Rightarrow> answer_key0
         | Inr ai_analyzer \<Rightarrow>
             (let available_answers = get_active_answers_for_question db qkey
              in if available_answers \<noteq> [] then
                   (let ai_matched_answer =
                          analyze_user_response env response_text qkey available_answers
                    in if ai_matched_answer = Some SORRY_DONT_UNDERSTAND
                       then Some SORRY_DONT_UNDERSTAND
                       else if ai_matched_answer = Some SUGGESTION_REQUEST
                       then Some SUGGESTION_REQUEST
                       else if truthy ai_matched_answer
                               \<and> ai_matched_answer \<noteq> Some SORRY_DONT_UNDERSTAND
                               \<and> ai_matched_answer \<noteq> Some SUGGESTION_REQUEST
                       then ai_matched_answer
                       else answer_key0)
                 else answer_key0))
      else answer_key0)"

definition process_select_answer ::
  "environment \<Rightarrow> database \<Rightarrow> string option \<Rightarrow> int option \<Rightarrow> string \<Rightarrow> string option
     \<Rightarrow> string option \<Rightarrow> (error + ConversationEntryResponse) \<times> database" where
  "process_select_answer env db session_id user_id qkey answer_key0 response_text =
     (let akey = select_answer_key env db qkey answer_key0 response_text;
          entry_data = \<lparr>req_session_id = session_id,
                        req_user_id = user_id,
                        req_question_key = qkey,
                        req_answer_key = convert_null_string akey,
                        req_custom_input = None,
                        req_responseText = convert_null_string response_text,
                        req_select_type = ''select''\<rparr>
      in if akey = Some SORRY_DONT_UNDERSTAND
         then (Inr (handle_sorry_response env entry_data), db)
         else if akey = Some SUGGESTION_REQUEST
         then (Inr (handle_suggestion_request env entry_data response_text), db)
         else create_conversation_entry env db entry_data)"

text \<open>The first part of \<open>process_voice_answer\<close>: the value of \<open>matched_answer_key\<close>.\<close>

definition voice_answer_key ::
  "environment \<Rightarrow> database \<Rightarrow> string \<Rightarrow> string option \<Rightarrow> string option" where
  "voice_answer_key env db qkey voice_text =
     (case GeminiAnalyzer_init env of
        Inl e \<Rightarrow> None
      | Inr ai_analyzer \<Rightarrow>
          (let available_answers = get_active_answers_for_question db qkey
           in if available_answers \<noteq> []
              then analyze_user_response env voice_text qkey available_answers
              else None))"

record VoiceResult =
  conversation_entry :: ConversationEntryResponse
  matched :: bool
  matched_answer_key :: "string option"
  result_voice_text :: "string option"
  user_language :: string

definition process_voice_answer ::
  "environment \<Rightarrow> database \<Rightarrow> string option \<Rightarrow> int option \<Rightarrow> string \<Rightarrow> string option
     \<Rightarrow> string option \<Rightarrow> (error + VoiceResult) \<times> database" where
  "process_voice_answer env db session_id user_id qkey voice_text response_text =
     (let mkey = voice_answer_key env db qkey voice_text;
          entry_data = \<lparr>req_session_id = session_id,
                        req_user_id = user_id,
                        req_question_key = qkey,
                        req_answer_key = convert_null_string mkey,
                        req_custom_input = voice_text,
                        req_responseText = convert_null_string response_text,
                        req_select_type = ''voice''\<rparr>;
          language = get_user_language db session_id;
          created =
            (if mkey = Some SORRY_DONT_UNDERSTAND
             then (Inr (handle_sorry_response env entry_data), db)
             else if mkey = Some SUGGESTION_REQUEST
             then (case get_food_suggestions env voice_text language of
                     Inl e \<Rightarrow> (Inl e, db)
                   | Inr suggestion_response \<Rightarrow>
                       create_conversation_entry env db
                         (entry_data\<lparr>req_responseText := Some suggestion_response\<rparr>))
             else create_conversation_entry env db entry_data)
      in case created of
           (Inl e, db') \<Rightarrow> (Inl e, db')
         | (Inr entry, db') \<Rightarrow>
             (Inr \<lparr>conversation_entry = entry,
                   matched = (mkey \<noteq> None),
                   matched_answer_key = mkey,
                   result_voice_text = voice_text,
                   user_language = language\<rparr>, db'))"

text \<open>\<open>.order_by(QuestionMaster.question_order).first()\<close>: the first row of the rows
  sorted by rank; rows of equal rank keep the order of the table.\<close>

definition first_by_order :: "QuestionMaster list \<Rightarrow> QuestionMaster option" where
  "first_by_order qs = (case sort_key question_order qs of [] \<Rightarrow> None | q # rest \<Rightarrow> Some q)"

text \<open>The Wizard Progression Engine; \<open>session_id\<close> is not used by the source.\<close>

definition get_next_question ::
  "database \<Rightarrow> string \<Rightarrow> string option \<Rightarrow> QuestionMaster option" where
  "get_next_question db session_id current_question_key =
     (if truthy current_question_key then
        (case find (\<lambda>q. Some (question_key q) = current_question_key) (question_masters db) of
           Some current_question \<Rightarrow>
             first_by_order
               (filter (\<lambda>q. question_order q > question_order current_question
                             \<and> question_is_active q) (question_masters db))
         | None \<Rightarrow> None)
      else first_by_order (filter question_is_active (question_masters db)))"

section \<open>Routes (app/routes/select_routes.py, app/routes/voice_routes.py)\<close>

datatype 'a http = Response 'a | HTTPException nat string

text \<open>The handlers of \<open>submit_select_answer\<close> and \<open>submit_voice_answer\<close>: a
  \<open>ValueError\<close> becomes status 400, any other exception status 500.\<close>

fun http_of :: "error + 'a \<Rightarrow> 'a http" where
  "http_of (Inr result) = Response result"
| "http_of (Inl (ValueError m)) = HTTPException 400 m"
| "http_of (Inl e) = HTTPException 500 (''An error occurred: '' @ str_error e)"

record SelectAnswerRequest =
  sel_session_id :: "string option"
  sel_user_id :: "int option"
  sel_question_key :: string
  sel_answer_key :: "string option"
  sel_responseText :: "string option"

definition submit_select_answer ::
  "environment \<Rightarrow> database \<Rightarrow> SelectAnswerRequest \<Rightarrow> ConversationEntryResponse http \<times> database" where
  "submit_select_answer env db request =
     (case process_select_answer env db (sel_session_id request) (sel_user_id request)
             (sel_question_key request) (sel_answer_key request) (sel_responseText request) of
        (result, db') \<Rightarrow> (http_of result, db'))"

record VoiceAnswerRequest =
  voi_session_id :: "string option"
  voi_user_id :: "int option"
  voi_question_key :: string
  voi_voice_text :: "string option"

definition submit_voice_answer ::
  "environment \<Rightarrow> database \<Rightarrow> VoiceAnswerRequest \<Rightarrow> VoiceResult http \<times> database" where
  "submit_voice_answer env db request =
     (case process_voice_answer env db (voi_session_id request) (voi_user_id request)
             (voi_question_key request) (voi_voice_text request) (voi_voice_text request) of
        (result, db') \<Rightarrow> (http_of result, db'))"

text \<open>The two \<open>/next-question\<close> routes: no question is reported as completion.\<close>

datatype next_question_reply = Completed string | Question QuestionMaster

definition next_question_route :: "database \<Rightarrow> string \<Rightarrow> string option \<Rightarrow> next_question_reply http" where
  "next_question_route db session_id current_question_key =
     (case get_next_question db session_id current_question_key of
        None \<Rightarrow> Response (Completed ''No more questions'')
      | Some next_question \<Rightarrow> Response (Question next_question))"

text \<open>A caller that chains \<open>next\<close> on the key of the question returned before, for at
  most \<open>fuel\<close> calls after the first; the list of the questions returned.\<close>

fun chain_from :: "nat \<Rightarrow> database \<Rightarrow> string \<Rightarrow> QuestionMaster \<Rightarrow> QuestionMaster list" where
  "chain_from 0 db session_id q = [q]"
| "chain_from (Suc fuel) db session_id q =
     q # (case get_next_question db session_id (Some (question_key q)) of
            None \<Rightarrow> []
          | Some q' \<Rightarrow> chain_from fuel db session_id q')"

definition wizard_chain :: "nat \<Rightarrow> database \<Rightarrow> string \<Rightarrow> QuestionMaster list" where
  "wizard_chain fuel db session_id =
     (case get_next_question db session_id None of
        None \<Rightarrow> []
      | Some q \<Rightarrow> chain_from fuel db session_id q)"

section \<open>Example data\<close>

definition exact_ratio :: "string \<Rightarrow> string \<Rightarrow> rat" where
  "exact_ratio a b = (if a = b then 1 else 0)"

definition example_db :: database where
  "example_db =
    \<lparr>question_masters =
       [\<lparr>question_key = ''dietary_preference'', question_text = ''What do you eat?'',
         question_order = 1, question_is_active = True\<rparr>,
        \<lparr>question_key = ''cuisine_type'', question_text = ''Which cuisine?'',
         question_order = 2, question_is_active = True\<rparr>,
        \<lparr>question_key = ''old_question'', question_text = ''Retired'',
         question_order = 3, question_is_active = False\<rparr>,
        \<lparr>question_key = ''hunger_level'', question_text = ''How hungry?'',
         question_order = 4, question_is_active = True\<rparr>],
     answer_masters =
       [\<lparr>answer_key = ''veg_key'', answer_question_key = ''dietary_preference'',
         answer_text = ''Vegetarian'', answer_order = Some 1, answer_is_active = True\<rparr>,
        \<lparr>answer_key = ''vegan_key'', answer_question_key = ''dietary_preference'',
         answer_text = ''Vegan'', answer_order = Some 2, answer_is_active = True\<rparr>,
        \<lparr>answer_key = ''stale_key'', answer_question_key = ''old_question'',
         answer_text = ''Stale'', answer_order = None, answer_is_active = True\<rparr>],
     sessions = [\<lparr>session_pk = ''s1'', session_language = ''es''\<rparr>],
     conversation_entries = [],
     next_id = 1\<rparr>"

text \<open>An environment with both keys set, whose model answers every prompt with
  \<open>reply\<close>, whose store accepts every row and whose item queries fail (the item
  tables of this repository have no \<open>dietary_type\<close> column).\<close>

definition env_reply :: "string \<Rightarrow> environment" where
  "env_reply reply =
    \<lparr>GEMINI_API_KEY = Some ''key'',
     OPENAI_API_KEY = Some ''key'',
     generate_content = (\<lambda>prompt. Inr reply),
     commit_error = (\<lambda>row. None),
     now = 0,
     order_items_query = (\<lambda>diet limit. Inl (OtherException ''Unknown column'')),
     cart_items_query = (\<lambda>diet limit. Inl (OtherException ''Unknown column'')),
     all_items_query = (\<lambda>diet limit. Inl (OtherException ''Unknown column''))\<rparr>"

text \<open>An environment whose model call raises.\<close>

definition env_down :: environment where
  "env_down = (env_reply [])\<lparr>generate_content := (\<lambda>prompt. Inl (OtherException ''timeout''))\<rparr>"

text \<open>An environment whose store enforces the foreign key of the answer key column
  against the answers of \<open>example_db\<close>.\<close>

definition env_foreign_key :: environment where
  "env_foreign_key =
     (env_reply [])\<lparr>commit_error :=
        (\<lambda>row. case ce_answer_key row of
                 None \<Rightarrow> None
               | Some k \<Rightarrow>
                   if k \<in> set (map answer_key (answer_masters example_db)) then None
                   else Some (OtherException ''IntegrityError''))\<rparr>"

text \<open>An environment whose item queries succeed and return no rows.\<close>

definition env_no_rows :: environment where
  "env_no_rows =
     (env_reply [])\<lparr>order_items_query := (\<lambda>diet limit. Inr []),
                     cart_items_query := (\<lambda>diet limit. Inr []),
                     all_items_query := (\<lambda>diet limit. Inr [])\<rparr>"

text \<open>A catalogue whose only question has the empty string as its key.\<close>

definition db_empty_key :: database where
  "db_empty_key =
    \<lparr>question_masters =
       [\<lparr>question_key = [], question_text = ''What do you eat?'',
         question_order = 1, question_is_active = True\<rparr>],
     answer_masters = [],
     sessions = [],
     conversation_entries = [],
     next_id = 1\<rparr>"

definition example_entry :: "string option \<Rightarrow> ConversationEntryCreate" where
  "example_entry akey =
    \<lparr>req_session_id = Some ''s1'',
     req_user_id = None,
     req_question_key = ''dietary_preference'',
     req_answer_key = akey,
     req_custom_input = None,
     req_responseText = Some ''free text'',
     req_select_type = ''select''\<rparr>"

text \<open>An environment in which neither key is set.\<close>

definition env_no_keys :: environment where
  "env_no_keys = (env_reply [])\<lparr>GEMINI_API_KEY := None, OPENAI_API_KEY := None\<rparr>"

text \<open>An environment whose query of the order items returns one row.\<close>

definition env_one_row :: environment where
  "env_one_row =
     (env_reply [])\<lparr>order_items_query :=
        (\<lambda>diet limit.
           Inr [\<lparr>item_name = Some ''Paneer Tikka'', item_description = None,
                 price = Some ''9.5'', category = Some ''Starter''\<rparr>])\<rparr>"

text \<open>A catalogue whose only answer has the text \<open>ss\<close>.\<close>

definition db_ss :: database where
  "db_ss =
    \<lparr>question_masters =
       [\<lparr>question_key = ''q'', question_text = ''Which one?'',
         question_order = 1, question_is_active = True\<rparr>],
     answer_masters =
       [\<lparr>answer_key = ''k_ss'', answer_question_key = ''q'',
         answer_text = ''ss'', answer_order = Some 1, answer_is_active = True\<rparr>],
     sessions = [],
     conversation_entries = [],
     next_id = 1\<rparr>"

section \<open>Lemmas about the matcher\<close>

lemma answer_score_eq: "answer_score ratio u a = spec_candidate_score ratio u a"
proof -
  have gen: "fold (\<lambda>v s. max s (f v)) vs s0 = Max (set (s0 # map f vs))" for f :: "string \<Rightarrow> rat" and vs s0
  proof (induction vs arbitrary: s0)
    case Nil show ?case by simp
  next
    case (Cons v vs)
    have "fold (\<lambda>v s. max s (f v)) (v # vs) s0 = Max (set (max s0 (f v) # map f vs))"
      using Cons.IH by simp
    also have "\<dots> = Max (set (s0 # map f (v # vs)))"
      by (cases "vs = []") (simp_all add: max.assoc)
    finally show ?case .
  qed
  show ?thesis
    unfolding answer_score_def spec_candidate_score_def calculate_similarity_def
    by (simp add: gen)
qed

lemma fold_match_step:
  "fold (match_step ratio u t) xs st =
     (if xs = [] \<or> Max (set (map (answer_score ratio u) xs)) \<le> snd st
          \<or> Max (set (map (answer_score ratio u) xs)) < t
      then st
      else (map_option answer_key
              (find (\<lambda>a. answer_score ratio u a = Max (set (map (answer_score ratio u) xs))) xs),
            Max (set (map (answer_score ratio u) xs))))"
proof (induction xs arbitrary: st)
  case Nil show ?case by simp
next
  case (Cons x xs)
  show ?case
  proof (cases "xs = []")
    case True
    then show ?thesis by (auto simp: match_step_def Let_def)
  next
    case False
    define M' where "M' = Max (set (map (answer_score ratio u) xs))"
    define s where "s = answer_score ratio u x"
    have M: "Max (set (map (answer_score ratio u) (x # xs))) = max s M'"
      using False by (simp add: M'_def s_def)
    have F: "fold (match_step ratio u t) (x # xs) st
        = fold (match_step ratio u t) xs (match_step ratio u t x st)" by simp
    have IH: "fold (match_step ratio u t) xs st' =
       (if M' \<le> snd st' \<or> M' < t then st'
        else (map_option answer_key (find (\<lambda>a. answer_score ratio u a = M') xs), M'))" for st'
      using Cons.IH [of st'] False by (simp add: M'_def)
    have step: "match_step ratio u t x st =
       (if s > snd st \<and> s \<ge> t then (Some (answer_key x), s) else st)"
      by (simp add: match_step_def s_def Let_def)
    have fnd: "find (\<lambda>a. answer_score ratio u a = max s M') (x # xs) =
       (if s = max s M' then Some x else find (\<lambda>a. answer_score ratio u a = M') xs)"
      by (simp add: s_def max_def)
    show ?thesis
      unfolding F M IH step fnd
      by (auto simp: max_def)
  qed
qed

lemma is_space_lower_char: "is_space (lower_char c) = is_space c"
proof -
  have "of_char c < (256::nat)" by simp
  then show ?thesis
    unfolding is_space_def lower_char_def Let_def
    by (auto simp: )
qed

lemma dropWhile_append_all: "\<forall>c\<in>set p. P c \<Longrightarrow> dropWhile P (p @ x) = dropWhile P x"
  by (induction p) auto

lemma py_strip_pad:
  assumes "\<forall>c\<in>set p. is_space c" "\<forall>c\<in>set s. is_space c"
  shows "py_strip (p @ x @ s) = py_strip x"
proof -
  have 1: "dropWhile is_space (p @ x @ s) = dropWhile is_space (x @ s)"
    using assms(1) by (rule dropWhile_append_all)
  show ?thesis
  proof (cases "\<forall>c\<in>set x. is_space c")
    case True
    then have "\<forall>c\<in>set (x @ s). is_space c" using assms(2) by auto
    then have a: "dropWhile is_space (x @ s) = []" by (simp add: dropWhile_eq_Nil_conv)
    have b: "dropWhile is_space x = []" using True by (simp add: dropWhile_eq_Nil_conv)
    show ?thesis unfolding py_strip_def 1 a b ..
  next
    case False
    then have "dropWhile is_space (x @ s) = dropWhile is_space x @ s"
      by (auto simp: dropWhile_append)
    moreover have "dropWhile is_space (rev s @ rev (dropWhile is_space x))
        = dropWhile is_space (rev (dropWhile is_space x))"
      using assms(2) by (intro dropWhile_append_all) simp
    ultimately show ?thesis by (simp add: py_strip_def 1)
  qed
qed

lemma normalise_pad_case:
  assumes "\<forall>c\<in>set p. is_space c" "\<forall>c\<in>set s. is_space c" "py_lower u' = py_lower u"
  shows "py_strip (py_lower (p @ u' @ s)) = py_strip (py_lower u)"
proof -
  have "py_lower (p @ u' @ s) = py_lower p @ py_lower u @ py_lower s"
    using assms(3) by (simp add: py_lower_def)
  moreover have "\<forall>c\<in>set (py_lower p). is_space c" "\<forall>c\<in>set (py_lower s). is_space c"
    using assms(1,2) by (auto simp: py_lower_def is_space_lower_char)
  ultimately show ?thesis by (simp add: py_strip_pad)
qed

section \<open>Lemmas about the progression engine\<close>

lemma first_by_order_None: "first_by_order qs = None \<longleftrightarrow> qs = []"
proof -
  have "sort_key question_order qs = [] \<longleftrightarrow> qs = []"
    by (metis length_sort length_0_conv)
  then show ?thesis by (auto simp: first_by_order_def split: list.splits)
qed

lemma first_by_order_Some:
  assumes "first_by_order qs = Some q"
  shows "q \<in> set qs \<and> (\<forall>q'\<in>set qs. question_order q \<le> question_order q')"
proof -
  from assms obtain rest where s: "sort_key question_order qs = q # rest"
    by (auto simp: first_by_order_def split: list.splits)
  have "set (sort_key question_order qs) = set qs" by simp
  with s have mem: "q \<in> set qs" and sub: "set rest \<subseteq> set qs" "set qs = insert q (set rest)" by auto
  have "sorted (map question_order (sort_key question_order qs))" by (rule sorted_sort_key)
  with s have "\<forall>x\<in>set rest. question_order q \<le> question_order x" by simp
  with sub mem show ?thesis by auto
qed

lemma find_key_distinct:
  assumes "distinct (map question_key qs)" "q \<in> set qs"
  shows "find (\<lambda>x. Some (question_key x) = Some (question_key q)) qs = Some q"
  using assms by (induction qs) (auto simp: rev_image_eqI)

lemma next_after:
  assumes d: "distinct (map question_key (question_masters db))"
    and q: "q \<in> set (question_masters db)" and k: "question_key q \<noteq> []"
    and n: "get_next_question db sid (Some (question_key q)) = Some q'"
  shows "q' \<in> set (question_masters db) \<and> question_is_active q'
         \<and> question_order q < question_order q'"
proof -
  from n k find_key_distinct [OF d q]
  have "first_by_order (filter (\<lambda>x. question_order x > question_order q \<and> question_is_active x)
           (question_masters db)) = Some q'"
    by (simp add: get_next_question_def)
  from first_by_order_Some [OF this] show ?thesis by auto
qed

lemma chain_from_props:
  assumes d: "distinct (map question_key (question_masters db))"
    and ne: "\<forall>x\<in>set (question_masters db). question_key x \<noteq> []"
  shows "q \<in> set (question_masters db) \<Longrightarrow>
     set (chain_from fuel db sid q) \<subseteq> set (question_masters db)
     \<and> (\<forall>x\<in>set (chain_from fuel db sid q). question_order q \<le> question_order x)
     \<and> sorted_wrt (<) (map question_order (chain_from fuel db sid q))"
proof (induction fuel arbitrary: q)
  case 0
  then show ?case by simp
next
  case (Suc fuel)
  show ?case
  proof (cases "get_next_question db sid (Some (question_key q))")
    case None
    then show ?thesis using Suc.prems by simp
  next
    case (Some q')
    from Suc.prems ne have k: "question_key q \<noteq> []" by blast
    from next_after [OF d Suc.prems k Some]
    have q': "q' \<in> set (question_masters db)" and lt: "question_order q < question_order q'"
      by auto
    from Suc.IH [OF q'] have
      sub: "set (chain_from fuel db sid q') \<subseteq> set (question_masters db)" and
      ge: "\<forall>x\<in>set (chain_from fuel db sid q'). question_order q' \<le> question_order x" and
      so: "sorted_wrt (<) (map question_order (chain_from fuel db sid q'))"
      by auto
    have eq: "chain_from (Suc fuel) db sid q = q # chain_from fuel db sid q'"
      using Some by simp
    show ?thesis unfolding eq using Suc.prems sub ge so lt by fastforce
  qed
qed

lemma chain_from_complete:
  "length (chain_from fuel db sid q) \<le> fuel \<Longrightarrow>
     get_next_question db sid (Some (question_key (last (chain_from fuel db sid q)))) = None"
proof (induction fuel arbitrary: q)
  case 0
  then show ?case by simp
next
  case (Suc fuel)
  show ?case
  proof (cases "get_next_question db sid (Some (question_key q))")
    case None
    then show ?thesis by simp
  next
    case (Some q')
    have ne: "chain_from fuel db sid q' \<noteq> []" by (cases fuel) simp_all
    from Suc.prems Some have "length (chain_from fuel db sid q') \<le> fuel" by simp
    from Suc.IH [OF this] show ?thesis using Some ne by simp
  qed
qed

lemma chain_from_length:
  assumes d: "distinct (map question_key (question_masters db))"
    and ne: "\<forall>x\<in>set (question_masters db). question_key x \<noteq> []"
    and q: "q \<in> set (question_masters db)"
  shows "length (chain_from fuel db sid q) \<le> length (question_masters db)"
proof -
  let ?c = "chain_from fuel db sid q"
  from chain_from_props [OF d ne q] have sub: "set ?c \<subseteq> set (question_masters db)"
    and so: "sorted_wrt (<) (map question_order ?c)" by auto
  from so have "distinct (map question_order ?c)"
    by (simp add: strict_sorted_iff)
  then have "distinct ?c" by (simp add: distinct_map)
  then have "length ?c = card (set ?c)" by (simp add: distinct_card)
  also have "\<dots> \<le> card (set (question_masters db))" using sub by (simp add: card_mono)
  also have "\<dots> \<le> length (question_masters db)" by (rule card_length)
  finally show ?thesis .
qed

section \<open>Lemmas about the recorder and the coordinator\<close>

lemma recorder_cases:
  "(\<exists>e. create_conversation_entry env db entry = (Inl e, db))
   \<or> create_conversation_entry env db entry =
         (Inr (from_orm (db_entry_of env db entry)),
          db\<lparr>conversation_entries := conversation_entries db @ [db_entry_of env db entry],
             next_id := Suc (next_id db)\<rparr>)"
  by (simp add: create_conversation_entry_def Let_def split: option.splits sum.splits)

lemma recorder_succeeds:
  assumes "truthy (OPENAI_API_KEY env)"
    "validate_question_key db (req_question_key entry)" "\<forall>row. commit_error env row = None"
  shows "create_conversation_entry env db entry =
         (Inr (from_orm (db_entry_of env db entry)),
          db\<lparr>conversation_entries := conversation_entries db @ [db_entry_of env db entry],
             next_id := Suc (next_id db)\<rparr>)"
  using assms by (simp add: create_conversation_entry_def OpenAIAnalyzer_init_def Let_def)

lemma food_suggestions_returns: "\<exists>s. get_food_suggestions env vt l = Inr s"
  by (cases "extract_dietary_preference vt") (simp_all add: get_food_suggestions_def)

lemma select_at_most_one:
  "snd (process_select_answer env db sid uid qkey ak rt) = db
   \<or> (\<exists>row. snd (process_select_answer env db sid uid qkey ak rt) =
         db\<lparr>conversation_entries := conversation_entries db @ [row],
            next_id := Suc (next_id db)\<rparr>)"
proof -
  let ?e = "\<lparr>req_session_id = sid, req_user_id = uid, req_question_key = qkey,
             req_answer_key = convert_null_string (select_answer_key env db qkey ak rt),
             req_custom_input = None, req_responseText = convert_null_string rt,
             req_select_type = ''select''\<rparr>"
  from recorder_cases [of env db ?e] show ?thesis
    by (auto simp: process_select_answer_def Let_def)
qed

lemma voice_at_most_one:
  "snd (process_voice_answer env db sid uid qkey vt rt) = db
   \<or> (\<exists>row. snd (process_voice_answer env db sid uid qkey vt rt) =
         db\<lparr>conversation_entries := conversation_entries db @ [row],
            next_id := Suc (next_id db)\<rparr>)"
proof -
  let ?e = "\<lparr>req_session_id = sid, req_user_id = uid, req_question_key = qkey,
             req_answer_key = convert_null_string (voice_answer_key env db qkey vt),
             req_custom_input = vt, req_responseText = convert_null_string rt,
             req_select_type = ''voice''\<rparr>"
  show ?thesis
  proof (cases "voice_answer_key env db qkey vt = Some SORRY_DONT_UNDERSTAND")
    case True
    then show ?thesis by (simp add: process_voice_answer_def Let_def)
  next
    case ns: False
    show ?thesis
    proof (cases "voice_answer_key env db qkey vt = Some SUGGESTION_REQUEST")
      case True
      obtain s where s: "get_food_suggestions env vt (get_user_language db sid) = Inr s"
        using food_suggestions_returns by blast
      from recorder_cases [of env db "?e\<lparr>req_responseText := Some s\<rparr>"] show ?thesis
        using True ns s by (auto simp: process_voice_answer_def Let_def)
    next
      case False
      from recorder_cases [of env db ?e] show ?thesis
        using False ns by (auto simp: process_voice_answer_def Let_def)
    qed
  qed
qed

lemma select_ambiguous:
  assumes "select_answer_key env db qkey ak rt = Some SORRY_DONT_UNDERSTAND"
  shows "snd (process_select_answer env db sid uid qkey ak rt) = db
     \<and> (\<exists>r. fst (process_select_answer env db sid uid qkey ak rt) = Inr r
            \<and> resp_id r = 0 \<and> resp_answer_key r = Some SORRY_DONT_UNDERSTAND
            \<and> resp_responseText r = Some sorry_message)"
  using assms by (simp add: process_select_answer_def Let_def handle_sorry_response_def)

lemma voice_ambiguous:
  assumes "voice_answer_key env db qkey vt = Some SORRY_DONT_UNDERSTAND"
  shows "snd (process_voice_answer env db sid uid qkey vt rt) = db
     \<and> (\<exists>res. fst (process_voice_answer env db sid uid qkey vt rt) = Inr res
            \<and> resp_id (conversation_entry res) = 0
            \<and> resp_answer_key (conversation_entry res) = Some SORRY_DONT_UNDERSTAND
            \<and> resp_responseText (conversation_entry res) = Some sorry_message)"
  using assms by (simp add: process_voice_answer_def Let_def handle_sorry_response_def)

lemma select_resolved:
  assumes "select_answer_key env db qkey ak rt \<noteq> Some SORRY_DONT_UNDERSTAND"
    "select_answer_key env db qkey ak rt \<noteq> Some SUGGESTION_REQUEST"
    "validate_question_key db qkey" "\<forall>row. commit_error env row = None"
    "truthy (OPENAI_API_KEY env)"
  shows "\<exists>row. process_select_answer env db sid uid qkey ak rt =
         (Inr (from_orm row),
          db\<lparr>conversation_entries := conversation_entries db @ [row],
             next_id := Suc (next_id db)\<rparr>)"
proof -
  let ?e = "\<lparr>req_session_id = sid, req_user_id = uid, req_question_key = qkey,
             req_answer_key = convert_null_string (select_answer_key env db qkey ak rt),
             req_custom_input = None, req_responseText = convert_null_string rt,
             req_select_type = ''select''\<rparr>"
  have "validate_question_key db (req_question_key ?e)" using assms(3) by simp
  from recorder_succeeds [OF assms(5) this assms(4)]
  have "process_select_answer env db sid uid qkey ak rt =
         (Inr (from_orm (db_entry_of env db ?e)),
          db\<lparr>conversation_entries := conversation_entries db @ [db_entry_of env db ?e],
             next_id := Suc (next_id db)\<rparr>)"
    using assms(1,2) by (simp add: process_select_answer_def Let_def)
  then show ?thesis by blast
qed

lemma voice_recorded:
  assumes "voice_answer_key env db qkey vt \<noteq> Some SORRY_DONT_UNDERSTAND"
    "validate_question_key db qkey" "\<forall>row. commit_error env row = None"
    "truthy (OPENAI_API_KEY env)"
  shows "\<exists>row. snd (process_voice_answer env db sid uid qkey vt rt) =
          db\<lparr>conversation_entries := conversation_entries db @ [row],
             next_id := Suc (next_id db)\<rparr>
        \<and> map_sum id conversation_entry (fst (process_voice_answer env db sid uid qkey vt rt))
            = Inr (from_orm row)"
proof -
  let ?e = "\<lparr>req_session_id = sid, req_user_id = uid, req_question_key = qkey,
             req_answer_key = convert_null_string (voice_answer_key env db qkey vt),
             req_custom_input = vt, req_responseText = convert_null_string rt,
             req_select_type = ''voice''\<rparr>"
  show ?thesis
  proof (cases "voice_answer_key env db qkey vt = Some SUGGESTION_REQUEST")
    case True
    obtain s where s: "get_food_suggestions env vt (get_user_language db sid) = Inr s"
      using food_suggestions_returns by blast
    let ?e' = "?e\<lparr>req_responseText := Some s\<rparr>"
    have "validate_question_key db (req_question_key ?e')" using assms(2) by simp
    from recorder_succeeds [OF assms(4) this assms(3)]
    have "snd (process_voice_answer env db sid uid qkey vt rt) =
            db\<lparr>conversation_entries := conversation_entries db @ [db_entry_of env db ?e'],
               next_id := Suc (next_id db)\<rparr>
          \<and> map_sum id conversation_entry (fst (process_voice_answer env db sid uid qkey vt rt))
              = Inr (from_orm (db_entry_of env db ?e'))"
      using assms(1) True s by (simp add: process_voice_answer_def Let_def)
    then show ?thesis by blast
  next
    case False
    have "validate_question_key db (req_question_key ?e)" using assms(2) by simp
    from recorder_succeeds [OF assms(4) this assms(3)]
    have "snd (process_voice_answer env db sid uid qkey vt rt) =
            db\<lparr>conversation_entries := conversation_entries db @ [db_entry_of env db ?e],
               next_id := Suc (next_id db)\<rparr>
          \<and> map_sum id conversation_entry (fst (process_voice_answer env db sid uid qkey vt rt))
              = Inr (from_orm (db_entry_of env db ?e))"
      using assms(1) False by (simp add: process_voice_answer_def Let_def)
    then show ?thesis by blast
  qed
qed

lemma select_suggested:
  assumes "select_answer_key env db qkey ak rt = Some SUGGESTION_REQUEST"
  shows "snd (process_select_answer env db sid uid qkey ak rt) = db
     \<and> (\<exists>r. fst (process_select_answer env db sid uid qkey ak rt) = Inr r \<and> resp_id r = 0)"
proof -
  have n: "Some SUGGESTION_REQUEST \<noteq> Some SORRY_DONT_UNDERSTAND"
    by (simp add: SUGGESTION_REQUEST_def SORRY_DONT_UNDERSTAND_def)
  show ?thesis
    using assms n
    by (cases "extract_dietary_preference rt")
       (simp_all add: process_select_answer_def Let_def handle_suggestion_request_def
          handle_sorry_response_def)
qed

lemma recorder_rejects:
  assumes "\<not> validate_question_key db (req_question_key entry)"
  shows "(\<exists>m. create_conversation_entry env db entry = (Inl (ValueError m), db))
     \<and> (truthy (OPENAI_API_KEY env) \<longrightarrow>
          create_conversation_entry env db entry
            = (Inl (ValueError (''Invalid question key: '' @ req_question_key entry)), db))"
  using assms by (simp add: create_conversation_entry_def OpenAIAnalyzer_init_def)

lemma validate_answer_key_iff:
  "validate_answer_key db k qkey \<longleftrightarrow>
     (\<exists>a\<in>set (answer_masters db). answer_key a = k \<and> answer_question_key a = qkey
          \<and> answer_is_active a)"
  by (auto simp: validate_answer_key_def find_None_iff)

lemma db_entry_of_answer_key:
  "ce_answer_key (db_entry_of env db e) = Some k \<Longrightarrow> k \<noteq> [] \<Longrightarrow>
     validate_answer_key db k (req_question_key e)"
  by (auto simp: db_entry_of_def Let_def split: option.splits if_splits)

lemma db_entry_of_downgrade:
  "req_answer_key e = Some k \<Longrightarrow> k \<noteq> [] \<Longrightarrow> \<not> validate_answer_key db k (req_question_key e)
     \<Longrightarrow> ce_answer_key (db_entry_of env db e) = None"
  by (simp add: db_entry_of_def Let_def)

lemma db_entry_of_fields:
  "ce_question_key (db_entry_of env db e) = req_question_key e"
  "ce_custom_input (db_entry_of env db e) = req_custom_input e"
  by (simp_all add: db_entry_of_def Let_def)

lemma find_None_unknown_key:
  "k \<notin> question_key ` set qs \<Longrightarrow> find (\<lambda>q. question_key q = k) qs = None"
  by (auto simp: find_None_iff)

lemma fallback_length: "length (get_fallback_suggestions dietary_preference) = 3"
  by (simp add: get_fallback_suggestions_def fallback_veg_def fallback_non_veg_def
      fallback_vegan_def split: option.splits)

lemma messages_nonempty:
  "fallback (messages_en dp) \<noteq> []" "follow_up (messages_en dp) \<noteq> []"
  "fallback (messages_es dp) \<noteq> []" "follow_up (messages_es dp) \<noteq> []"
  "fallback (messages_fr dp) \<noteq> []" "follow_up (messages_fr dp) \<noteq> []"
  "fallback (messages_hi dp) \<noteq> []" "follow_up (messages_hi dp) \<noteq> []"
  by (simp_all add: messages_en_def messages_es_def messages_fr_def messages_hi_def)

lemma selected_messages:
  "(case map_of (language_messages dp) language of Some m \<Rightarrow> m | None \<Rightarrow> messages_en dp)
     \<in> {messages_en dp, messages_es dp, messages_fr dp, messages_hi dp}"
  by (simp add: language_messages_def)

lemma format_with_language_nonempty:
  "format_suggestions_response_with_language suggestions dp language \<noteq> []"
proof -
  define m where "m = (case map_of (language_messages dp) language of
                         Some m \<Rightarrow> m | None \<Rightarrow> messages_en dp)"
  have "m \<in> {messages_en dp, messages_es dp, messages_fr dp, messages_hi dp}"
    unfolding m_def by (rule selected_messages)
  then have "fallback m \<noteq> [] \<and> follow_up m \<noteq> []"
    using messages_nonempty [of dp] by auto
  then show ?thesis
    by (simp add: format_suggestions_response_with_language_def Let_def m_def [symmetric])
qed

lemma default_language_template:
  assumes "language \<notin> {''en'', ''es'', ''fr'', ''hi''}"
  shows "format_suggestions_response_with_language suggestions dp language
       = format_suggestions_response_with_language suggestions dp ''en''"
  using assms by (simp add: format_suggestions_response_with_language_def language_messages_def)

lemma select_key_fallback:
  assumes "isl (GeminiAnalyzer_init env)
     \<or> isl (generate_content env (build_prompt rt (get_active_answers_for_question db qkey)))"
  shows "select_answer_key env db qkey ak rt = ak"
  using assms
  by (cases "GeminiAnalyzer_init env";
      cases "generate_content env (build_prompt rt (get_active_answers_for_question db qkey))")
     (simp_all add: select_answer_key_def analyze_user_response_def Let_def)

lemma voice_key_fallback:
  assumes "isl (GeminiAnalyzer_init env)
     \<or> isl (generate_content env (build_prompt vt (get_active_answers_for_question db qkey)))"
  shows "voice_answer_key env db qkey vt = None"
  using assms
  by (cases "GeminiAnalyzer_init env";
      cases "generate_content env (build_prompt vt (get_active_answers_for_question db qkey))")
     (simp_all add: voice_answer_key_def analyze_user_response_def Let_def)

lemma select_returns:
  assumes "truthy (OPENAI_API_KEY env)"
    "validate_question_key db qkey" "\<forall>row. commit_error env row = None"
  shows "\<not> isl (fst (process_select_answer env db sid uid qkey ak rt))"
  using assms
  by (simp add: process_select_answer_def Let_def recorder_succeeds)

lemma next_first:
  "(get_next_question db sid None = None \<longleftrightarrow>
       filter question_is_active (question_masters db) = [])
   \<and> (get_next_question db sid None = Some q \<longrightarrow>
        q \<in> set (question_masters db) \<and> question_is_active q
        \<and> (\<forall>q'\<in>set (question_masters db).
              question_is_active q' \<longrightarrow> question_order q \<le> question_order q'))"
proof -
  have g: "get_next_question db sid None
      = first_by_order (filter question_is_active (question_masters db))"
    by (simp add: get_next_question_def)
  show ?thesis unfolding g
    using first_by_order_Some [of "filter question_is_active (question_masters db)" q]
    by (auto simp: first_by_order_None)
qed

lemma next_later:
  assumes "k \<noteq> []" "find (\<lambda>x. question_key x = k) (question_masters db) = Some c"
  shows "(get_next_question db sid (Some k) = None \<longleftrightarrow>
           \<not> (\<exists>q'\<in>set (question_masters db).
                 question_is_active q' \<and> question_order c < question_order q'))
   \<and> (get_next_question db sid (Some k) = Some q \<longrightarrow>
        q \<in> set (question_masters db) \<and> question_is_active q
        \<and> question_order c < question_order q
        \<and> (\<forall>q'\<in>set (question_masters db).
              question_is_active q' \<and> question_order c < question_order q' \<longrightarrow>
              question_order q \<le> question_order q'))"
proof -
  let ?later = "filter (\<lambda>q. question_order c < question_order q \<and> question_is_active q)
                  (question_masters db)"
  have g: "get_next_question db sid (Some k) = first_by_order ?later"
    using assms by (simp add: get_next_question_def)
  have e: "?later = [] \<longleftrightarrow> \<not> (\<exists>q'\<in>set (question_masters db).
                 question_is_active q' \<and> question_order c < question_order q')"
    by (auto simp: filter_empty_conv)
  show ?thesis unfolding g
    using first_by_order_Some [of ?later q] e
    by (auto simp: first_by_order_None)
qed

lemma wizard_chain_sorted:
  assumes d: "distinct (map question_key (question_masters db))"
    and ne: "[] \<notin> question_key ` set (question_masters db)"
  shows "sorted_wrt (<) (map question_order (wizard_chain fuel db sid))"
proof (cases "get_next_question db sid None")
  case None
  then show ?thesis by (simp add: wizard_chain_def)
next
  case (Some q)
  with next_first [of db sid q] have q: "q \<in> set (question_masters db)" by simp
  from ne have ne': "\<forall>x\<in>set (question_masters db). question_key x \<noteq> []" by force
  from chain_from_props [OF d ne' q, of fuel sid] Some show ?thesis
    by (simp add: wizard_chain_def)
qed

lemma wizard_chain_completes:
  assumes d: "distinct (map question_key (question_masters db))"
    and ne: "[] \<notin> question_key ` set (question_masters db)"
    and f: "length (question_masters db) \<le> fuel" and c: "wizard_chain fuel db sid \<noteq> []"
  shows "get_next_question db sid (Some (question_key (last (wizard_chain fuel db sid)))) = None"
proof (cases "get_next_question db sid None")
  case None
  with c show ?thesis by (simp add: wizard_chain_def)
next
  case (Some q)
  with next_first [of db sid q] have q: "q \<in> set (question_masters db)" by simp
  from ne have ne': "\<forall>x\<in>set (question_masters db). question_key x \<noteq> []" by force
  from chain_from_length [OF d ne' q, of fuel sid] f
  have "length (chain_from fuel db sid q) \<le> fuel" by simp
  from chain_from_complete [OF this] Some show ?thesis by (simp add: wizard_chain_def)
qed

lemma template_lookup:
  "(case map_of (language_messages dp) language of Some m \<Rightarrow> m | None \<Rightarrow> messages_en dp)
     = template_for language dp"
  by (simp add: language_messages_def template_for_def)

section \<open>The claims\<close>

subsection \<open>C3: the matcher follows its specification\<close>

text \<open>
  C3. For every utterance and every question key, \<open>match_voice_to_answer\<close> with threshold
  0.6 returns null when the question has no active answer; otherwise it returns null
  when the best score over all candidates (the score of a candidate being the maximum of
  the ratio against its canonical text and against each of its lexical variants) is
  strictly less than 0.6, and the key of the first candidate achieving the global
  maximum score when it is not.
\<close>

theorem matcher_refines_spec:
  "match_voice_to_answer ratio db u qkey (3 / 5) = spec_match ratio db u qkey"
proof -
  have S: "answer_score ratio u = spec_candidate_score ratio u"
    by (rule ext) (rule answer_score_eq)
  define cands where "cands = active_answers db qkey"
  define best where "best = Max (set (map (answer_score ratio u) cands))"
  have "fst (fold (match_step ratio u (3 / 5)) cands (None, 0)) =
     (if cands = [] \<or> best \<le> 0 \<or> best < 3 / 5 then None
      else map_option answer_key (find (\<lambda>a. answer_score ratio u a = best) cands))"
    unfolding fold_match_step best_def by simp
  then show ?thesis
    unfolding match_voice_to_answer_def spec_match_def Let_def S[symmetric]
      cands_def[symmetric] best_def[symmetric]
    by auto
qed

text \<open>The theorem at the utterance \<open>"  VEG "\<close>: the variant \<open>"veg"\<close> of the answer
  \<open>"Vegetarian"\<close> scores 1, and by the specification the answer is chosen.\<close>

theorem matcher_refines_spec_witness:
  "spec_match exact_ratio example_db ''  VEG '' ''dietary_preference'' = Some ''veg_key''"
proof -
  have "match_voice_to_answer exact_ratio example_db ''  VEG '' ''dietary_preference'' (3 / 5)
        = Some ''veg_key''"
    by code_simp
  then show ?thesis
    using matcher_refines_spec [of exact_ratio example_db "''  VEG ''" "''dietary_preference''"]
    by simp
qed

subsection \<open>C10: the matcher ignores letter case and surrounding whitespace\<close>

text \<open>
  C10 as stated fails for a change of letter case that is not character by character:
  \<open>str.upper()\<close> turns the sharp s (code point 223) into \<open>SS\<close>, whose lower-case form
  \<open>ss\<close> is not the lower-case form of the sharp s. With an answer whose text is \<open>ss\<close>,
  the utterance made of the sharp s is not matched, and its upper-case form is. The
  ratio used here is 1 for equal strings and 0 for these different ones, as the ratio of
  the library is.
\<close>

theorem sharp_s_upper_case_matches:
  "py_upper [CHR 0xDF] = Some ''SS''
   \<and> match_voice_to_answer exact_ratio db_ss [CHR 0xDF] ''q'' (3 / 5) = None
   \<and> match_voice_to_answer exact_ratio db_ss ''SS'' ''q'' (3 / 5) = Some ''k_ss''"
  by code_simp

text \<open>
  C10, amended. For every utterance, question key and database state, the result of
  \<open>match_voice_to_answer\<close> does not change when the letter case of the utterance is
  changed character by character (\<open>u'\<close> and \<open>u\<close> have the same lower-case form) and when
  whitespace is added in front of it and behind it (\<open>p\<close> and \<open>s\<close> consist of whitespace
  characters).
\<close>

theorem matcher_case_and_padding:
  assumes "\<forall>c\<in>set p. is_space c" and "\<forall>c\<in>set s. is_space c"
    and "py_lower u' = py_lower u"
  shows "match_voice_to_answer ratio db (p @ u' @ s) qkey threshold
       = match_voice_to_answer ratio db u qkey threshold"
proof -
  have cs: "calculate_similarity ratio (p @ u' @ s) = calculate_similarity ratio u"
    by (rule ext) (simp add: calculate_similarity_def normalise_pad_case [OF assms])
  have "answer_score ratio (p @ u' @ s) = answer_score ratio u"
    by (rule ext) (simp add: answer_score_def cs)
  then have ms: "match_step ratio (p @ u' @ s) threshold = match_step ratio u threshold"
    by (intro ext) (simp add: match_step_def)
  show ?thesis unfolding match_voice_to_answer_def ms ..
qed

text \<open>The theorem at \<open>u = "veg"\<close>, \<open>u' = "VeG"\<close>, a leading tab and space and a trailing
  newline.\<close>

theorem matcher_case_and_padding_witness:
  "is_space (CHR 0x09) \<and> is_space (CHR '' '') \<and> is_space (CHR 0x0A)
   \<and> py_lower ''VeG'' = py_lower ''veg''
   \<and> match_voice_to_answer exact_ratio example_db
        ([CHR 0x09, CHR '' ''] @ ''VeG'' @ [CHR 0x0A]) ''dietary_preference'' (3 / 5)
      = match_voice_to_answer exact_ratio example_db ''veg'' ''dietary_preference'' (3 / 5)"
proof -
  have sp: "is_space (CHR 0x09)" "is_space (CHR '' '')" "is_space (CHR 0x0A)"
    by (simp_all add: is_space_def)
  then have p: "\<forall>c\<in>set [CHR 0x09, CHR '' '']. is_space c"
    and s: "\<forall>c\<in>set [CHR 0x0A]. is_space c" by simp_all
  have l: "py_lower ''VeG'' = py_lower ''veg''"
    by (simp add: py_lower_def lower_char_def char_of_eq_iff)
  from sp l matcher_case_and_padding [OF p s l, of exact_ratio example_db "''dietary_preference''" "3 / 5"]
  show ?thesis by blast
qed

subsection \<open>C1: turns persisted by the coordinator\<close>

text \<open>
  C1 as stated fails: when the classifier answers \<open>NONE\<close>, \<open>process_select_answer\<close>
  returns the apology with id 0 and answer key \<open>SORRY_DONT_UNDERSTAND\<close> (not null), and
  the table of conversation entries is as empty as before: no turn is persisted.
\<close>

theorem ambiguous_turn_not_persisted:
  "process_select_answer (env_reply ''NONE'') example_db (Some ''s1'') None
      ''dietary_preference'' (Some ''veg_key'') (Some ''asdkjasdkj'')
   = (Inr \<lparr>resp_id = 0, resp_session_id = Some ''s1'', resp_user_id = None,
           resp_question_key = ''dietary_preference'',
           resp_answer_key = Some ''SORRY_DONT_UNDERSTAND'', resp_custom_input = None,
           resp_responseText = Some sorry_message, resp_created_at = 0\<rparr>,
      example_db)
   \<and> conversation_entries example_db = []"
  by code_simp

text \<open>
  C1, amended. Every coordinator call (\<open>process_select_answer\<close>, \<open>process_voice_answer\<close>)
  persists at most one conversation entry and changes nothing else of the database but
  the id counter. When the resolution is AMBIGUOUS (answer key \<open>SORRY_DONT_UNDERSTAND\<close>)
  no turn is persisted, and the caller receives an entry with id 0, the answer key
  \<open>SORRY_DONT_UNDERSTAND\<close> and the fixed apology message. When the resolution is SUGGESTED
  in select mode, no turn is persisted either, and the caller receives an entry with
  id 0. In every other case (RESOLVED in select mode; RESOLVED, SUGGESTED or no answer
  key in voice mode) the Recorder is called, and when the key of its analyzer
  (\<open>OPENAI_API_KEY\<close>) is set, the question key is active and the store accepts every
  row, exactly one turn is persisted and returned.
\<close>

theorem coordinator_persists_at_most_one:
  "(snd (process_select_answer env db sid uid qkey ak rt) = db
    \<or> (\<exists>row. snd (process_select_answer env db sid uid qkey ak rt) =
          db\<lparr>conversation_entries := conversation_entries db @ [row],
             next_id := Suc (next_id db)\<rparr>))
   \<and> (snd (process_voice_answer env db sid uid qkey vt rt) = db
    \<or> (\<exists>row. snd (process_voice_answer env db sid uid qkey vt rt) =
          db\<lparr>conversation_entries := conversation_entries db @ [row],
             next_id := Suc (next_id db)\<rparr>))
   \<and> (select_answer_key env db qkey ak rt = Some SORRY_DONT_UNDERSTAND \<longrightarrow>
        snd (process_select_answer env db sid uid qkey ak rt) = db
        \<and> (\<exists>r. fst (process_select_answer env db sid uid qkey ak rt) = Inr r
               \<and> resp_id r = 0 \<and> resp_answer_key r = Some SORRY_DONT_UNDERSTAND
               \<and> resp_responseText r = Some sorry_message))
   \<and> (voice_answer_key env db qkey vt = Some SORRY_DONT_UNDERSTAND \<longrightarrow>
        snd (process_voice_answer env db sid uid qkey vt rt) = db
        \<and> (\<exists>res. fst (process_voice_answer env db sid uid qkey vt rt) = Inr res
               \<and> resp_id (conversation_entry res) = 0
               \<and> resp_answer_key (conversation_entry res) = Some SORRY_DONT_UNDERSTAND
               \<and> resp_responseText (conversation_entry res) = Some sorry_message))
   \<and> (select_answer_key env db qkey ak rt = Some SUGGESTION_REQUEST \<longrightarrow>
        snd (process_select_answer env db sid uid qkey ak rt) = db
        \<and> (\<exists>r. fst (process_select_answer env db sid uid qkey ak rt) = Inr r
               \<and> resp_id r = 0))
   \<and> (select_answer_key env db qkey ak rt \<noteq> Some SORRY_DONT_UNDERSTAND
        \<and> select_answer_key env db qkey ak rt \<noteq> Some SUGGESTION_REQUEST
        \<and> truthy (OPENAI_API_KEY env)
        \<and> validate_question_key db qkey \<and> (\<forall>row. commit_error env row = None) \<longrightarrow>
        (\<exists>row. process_select_answer env db sid uid qkey ak rt =
           (Inr (from_orm row),
            db\<lparr>conversation_entries := conversation_entries db @ [row],
               next_id := Suc (next_id db)\<rparr>)))
   \<and> (voice_answer_key env db qkey vt \<noteq> Some SORRY_DONT_UNDERSTAND
        \<and> truthy (OPENAI_API_KEY env)
        \<and> validate_question_key db qkey \<and> (\<forall>row. commit_error env row = None) \<longrightarrow>
        (\<exists>row. snd (process_voice_answer env db sid uid qkey vt rt) =
            db\<lparr>conversation_entries := conversation_entries db @ [row],
               next_id := Suc (next_id db)\<rparr>
          \<and> map_sum id conversation_entry
               (fst (process_voice_answer env db sid uid qkey vt rt)) = Inr (from_orm row)))"
proof (intro conjI impI)
  show "snd (process_select_answer env db sid uid qkey ak rt) = db
    \<or> (\<exists>row. snd (process_select_answer env db sid uid qkey ak rt) =
          db\<lparr>conversation_entries := conversation_entries db @ [row],
             next_id := Suc (next_id db)\<rparr>)"
    by (rule select_at_most_one)
  show "snd (process_voice_answer env db sid uid qkey vt rt) = db
    \<or> (\<exists>row. snd (process_voice_answer env db sid uid qkey vt rt) =
          db\<lparr>conversation_entries := conversation_entries db @ [row],
             next_id := Suc (next_id db)\<rparr>)"
    by (rule voice_at_most_one)
next
  assume a: "select_answer_key env db qkey ak rt = Some SORRY_DONT_UNDERSTAND"
  from select_ambiguous [OF a, of sid uid]
  show "snd (process_select_answer env db sid uid qkey ak rt) = db"
    and "\<exists>r. fst (process_select_answer env db sid uid qkey ak rt) = Inr r
               \<and> resp_id r = 0 \<and> resp_answer_key r = Some SORRY_DONT_UNDERSTAND
               \<and> resp_responseText r = Some sorry_message"
    by blast+
next
  assume a: "voice_answer_key env db qkey vt = Some SORRY_DONT_UNDERSTAND"
  from voice_ambiguous [OF a, of sid uid rt]
  show "snd (process_voice_answer env db sid uid qkey vt rt) = db"
    and "\<exists>res. fst (process_voice_answer env db sid uid qkey vt rt) = Inr res
               \<and> resp_id (conversation_entry res) = 0
               \<and> resp_answer_key (conversation_entry res) = Some SORRY_DONT_UNDERSTAND
               \<and> resp_responseText (conversation_entry res) = Some sorry_message"
    by blast+
next
  assume a: "select_answer_key env db qkey ak rt = Some SUGGESTION_REQUEST"
  from select_suggested [OF a, of sid uid]
  show "snd (process_select_answer env db sid uid qkey ak rt) = db"
    and "\<exists>r. fst (process_select_answer env db sid uid qkey ak rt) = Inr r \<and> resp_id r = 0"
    by blast+
next
  assume "select_answer_key env db qkey ak rt \<noteq> Some SORRY_DONT_UNDERSTAND
        \<and> select_answer_key env db qkey ak rt \<noteq> Some SUGGESTION_REQUEST
        \<and> truthy (OPENAI_API_KEY env)
        \<and> validate_question_key db qkey \<and> (\<forall>row. commit_error env row = None)"
  then show "\<exists>row. process_select_answer env db sid uid qkey ak rt =
           (Inr (from_orm row),
            db\<lparr>conversation_entries := conversation_entries db @ [row],
               next_id := Suc (next_id db)\<rparr>)"
    using select_resolved by blast
next
  assume "voice_answer_key env db qkey vt \<noteq> Some SORRY_DONT_UNDERSTAND
        \<and> truthy (OPENAI_API_KEY env)
        \<and> validate_question_key db qkey \<and> (\<forall>row. commit_error env row = None)"
  then show "\<exists>row. snd (process_voice_answer env db sid uid qkey vt rt) =
            db\<lparr>conversation_entries := conversation_entries db @ [row],
               next_id := Suc (next_id db)\<rparr>
          \<and> map_sum id conversation_entry
               (fst (process_voice_answer env db sid uid qkey vt rt)) = Inr (from_orm row)"
    using voice_recorded by blast
qed

text \<open>The theorem at a classifier that answers \<open>NONE\<close> (nothing is persisted, in
  both modes), at one that answers \<open>SUGGESTION_REQUEST\<close> (nothing is persisted in select
  mode, one row is appended in voice mode) and at one that answers the candidate key
  \<open>veg_key\<close> (one row is appended, in both modes).\<close>

theorem coordinator_persists_at_most_one_witness:
  "select_answer_key (env_reply ''NONE'') example_db ''dietary_preference''
       (Some ''veg_key'') (Some ''asdkjasdkj'') = Some SORRY_DONT_UNDERSTAND
   \<and> snd (process_select_answer (env_reply ''NONE'') example_db (Some ''s1'') None
            ''dietary_preference'' (Some ''veg_key'') (Some ''asdkjasdkj'')) = example_db
   \<and> voice_answer_key (env_reply ''NONE'') example_db ''dietary_preference''
       (Some ''asdkjasdkj'') = Some SORRY_DONT_UNDERSTAND
   \<and> snd (process_voice_answer (env_reply ''NONE'') example_db (Some ''s1'') None
            ''dietary_preference'' (Some ''asdkjasdkj'') (Some ''asdkjasdkj'')) = example_db
   \<and> select_answer_key (env_reply ''SUGGESTION_REQUEST'') example_db ''dietary_preference''
       None (Some ''suggest me something'') = Some SUGGESTION_REQUEST
   \<and> snd (process_select_answer (env_reply ''SUGGESTION_REQUEST'') example_db (Some ''s1'')
            None ''dietary_preference'' None (Some ''suggest me something'')) = example_db
   \<and> voice_answer_key (env_reply ''SUGGESTION_REQUEST'') example_db ''dietary_preference''
       (Some ''suggest me something'') = Some SUGGESTION_REQUEST
   \<and> (\<exists>row. snd (process_voice_answer (env_reply ''SUGGESTION_REQUEST'') example_db
            (Some ''s1'') None ''dietary_preference'' (Some ''suggest me something'')
            (Some ''suggest me something''))
          = example_db\<lparr>conversation_entries := conversation_entries example_db @ [row],
                        next_id := Suc (next_id example_db)\<rparr>)
   \<and> select_answer_key (env_reply ''veg_key'') example_db ''dietary_preference''
       None (Some ''i eat veg'') = Some ''veg_key''
   \<and> voice_answer_key (env_reply ''veg_key'') example_db ''dietary_preference''
       (Some ''i eat veg'') = Some ''veg_key''
   \<and> truthy (OPENAI_API_KEY (env_reply ''veg_key''))
   \<and> validate_question_key example_db ''dietary_preference''
   \<and> (\<exists>row. process_select_answer (env_reply ''veg_key'') example_db (Some ''s1'') None
            ''dietary_preference'' None (Some ''i eat veg'')
          = (Inr (from_orm row),
             example_db\<lparr>conversation_entries := conversation_entries example_db @ [row],
                        next_id := Suc (next_id example_db)\<rparr>))
   \<and> (\<exists>row. snd (process_voice_answer (env_reply ''veg_key'') example_db (Some ''s1'') None
            ''dietary_preference'' (Some ''i eat veg'') (Some ''i eat veg''))
          = example_db\<lparr>conversation_entries := conversation_entries example_db @ [row],
                        next_id := Suc (next_id example_db)\<rparr>)"
proof -
  have s1: "select_answer_key (env_reply ''NONE'') example_db ''dietary_preference''
       (Some ''veg_key'') (Some ''asdkjasdkj'') = Some SORRY_DONT_UNDERSTAND"
    by code_simp
  have v1: "voice_answer_key (env_reply ''NONE'') example_db ''dietary_preference''
       (Some ''asdkjasdkj'') = Some SORRY_DONT_UNDERSTAND"
    by code_simp
  have s2: "select_answer_key (env_reply ''veg_key'') example_db ''dietary_preference''
       None (Some ''i eat veg'') = Some ''veg_key''"
    by code_simp
  have v2: "voice_answer_key (env_reply ''veg_key'') example_db ''dietary_preference''
       (Some ''i eat veg'') = Some ''veg_key''"
    by code_simp
  have s3: "select_answer_key (env_reply ''SUGGESTION_REQUEST'') example_db
       ''dietary_preference'' None (Some ''suggest me something'') = Some SUGGESTION_REQUEST"
    by code_simp
  have v3: "voice_answer_key (env_reply ''SUGGESTION_REQUEST'') example_db
       ''dietary_preference'' (Some ''suggest me something'') = Some SUGGESTION_REQUEST"
    by code_simp
  have q: "validate_question_key example_db ''dietary_preference''"
    by code_simp
  have c: "\<forall>row. commit_error (env_reply r) row = None" for r
    by (simp add: env_reply_def)
  have o: "truthy (OPENAI_API_KEY (env_reply r))" for r
    by (simp add: env_reply_def)
  have n: "Some ''veg_key'' \<noteq> Some SORRY_DONT_UNDERSTAND"
    "Some ''veg_key'' \<noteq> Some SUGGESTION_REQUEST"
    "Some SUGGESTION_REQUEST \<noteq> Some SORRY_DONT_UNDERSTAND"
    by (simp_all add: SORRY_DONT_UNDERSTAND_def SUGGESTION_REQUEST_def)
  note a = coordinator_persists_at_most_one [where env = "env_reply ''NONE''"
      and db = example_db and sid = "Some ''s1''" and uid = None
      and qkey = "''dietary_preference''" and ak = "Some ''veg_key''"
      and rt = "Some ''asdkjasdkj''" and vt = "Some ''asdkjasdkj''"]
  note b = coordinator_persists_at_most_one [where env = "env_reply ''veg_key''"
      and db = example_db and sid = "Some ''s1''" and uid = None
      and qkey = "''dietary_preference''" and ak = None
      and rt = "Some ''i eat veg''" and vt = "Some ''i eat veg''"]
  note g = coordinator_persists_at_most_one [where env = "env_reply ''SUGGESTION_REQUEST''"
      and db = example_db and sid = "Some ''s1''" and uid = None
      and qkey = "''dietary_preference''" and ak = None
      and rt = "Some ''suggest me something''" and vt = "Some ''suggest me something''"]
  from a s1 have A: "snd (process_select_answer (env_reply ''NONE'') example_db (Some ''s1'') None
            ''dietary_preference'' (Some ''veg_key'') (Some ''asdkjasdkj'')) = example_db"
    by blast
  from a v1 have B: "snd (process_voice_answer (env_reply ''NONE'') example_db (Some ''s1'') None
            ''dietary_preference'' (Some ''asdkjasdkj'') (Some ''asdkjasdkj'')) = example_db"
    by blast
  from b s2 n q c o have C: "\<exists>row. process_select_answer (env_reply ''veg_key'') example_db (Some ''s1'') None
            ''dietary_preference'' None (Some ''i eat veg'')
          = (Inr (from_orm row),
             example_db\<lparr>conversation_entries := conversation_entries example_db @ [row],
                        next_id := Suc (next_id example_db)\<rparr>)"
    by simp
  from b v2 n q c o have D: "\<exists>row. snd (process_voice_answer (env_reply ''veg_key'') example_db (Some ''s1'') None
            ''dietary_preference'' (Some ''i eat veg'') (Some ''i eat veg''))
          = example_db\<lparr>conversation_entries := conversation_entries example_db @ [row],
                        next_id := Suc (next_id example_db)\<rparr>"
    by auto
  from g s3 have E: "snd (process_select_answer (env_reply ''SUGGESTION_REQUEST'') example_db
            (Some ''s1'') None ''dietary_preference'' None (Some ''suggest me something''))
          = example_db"
    by blast
  from g v3 n q c o have F: "\<exists>row. snd (process_voice_answer (env_reply ''SUGGESTION_REQUEST'')
            example_db (Some ''s1'') None ''dietary_preference'' (Some ''suggest me something'')
            (Some ''suggest me something''))
          = example_db\<lparr>conversation_entries := conversation_entries example_db @ [row],
                        next_id := Suc (next_id example_db)\<rparr>"
    by auto
  from s1 v1 s2 v2 s3 v3 q o A B C D E F show ?thesis by blast
qed

subsection \<open>C2: answer validity of recorded turns\<close>

text \<open>
  C2. For every turn produced by \<open>create_conversation_entry\<close>, a non-null persisted answer
  key references an active answer of the turn's question, and a supplied answer key that
  does not is downgraded to null, the turn being recorded all the same. The code misses
  the empty string: an empty answer key is not truthy, so its validation is skipped and
  it is handed to the store as it is. A store that accepts the row persists the non-null
  answer key \<open>""\<close>, which references no answer; a store that enforces the foreign key
  of the column raises, and the call is rejected instead of recorded.
\<close>

theorem empty_answer_key_recorded:
  "map ce_answer_key (conversation_entries (snd
      (create_conversation_entry (env_reply ''NONE'') example_db (example_entry (Some ''''))))) = [Some '''']
   \<and> \<not> validate_answer_key example_db '''' ''dietary_preference''
   \<and> create_conversation_entry env_foreign_key example_db (example_entry (Some ''''))
     = (Inl (ValueError ''Failed to create conversation entry: IntegrityError''), example_db)"
  by code_simp

text \<open>
  For every answer key but the empty string the property holds: if the persisted answer
  key is non-null and not empty, it references an active answer whose owning question
  equals the turn's question key; a supplied non-empty answer key that does not
  reference such an answer is downgraded to null; the free text is preserved; and with
  the key of the Recorder's analyzer set, an active question key and a store that
  accepts the row, the turn is recorded.
\<close>

theorem recorder_answer_validity:
  "(create_conversation_entry env db e = (Inr r, db') \<longrightarrow>
      (\<exists>row. conversation_entries db' = conversation_entries db @ [row] \<and> r = from_orm row
         \<and> ce_question_key row = req_question_key e
         \<and> ce_custom_input row = req_custom_input e
         \<and> (\<forall>k. ce_answer_key row = Some k \<and> k \<noteq> [] \<longrightarrow>
               (\<exists>a\<in>set (answer_masters db). answer_key a = k \<and> answer_is_active a
                    \<and> answer_question_key a = ce_question_key row))
         \<and> (\<forall>k. req_answer_key e = Some k \<and> k \<noteq> []
                  \<and> \<not> validate_answer_key db k (req_question_key e) \<longrightarrow>
               ce_answer_key row = None)))
   \<and> (truthy (OPENAI_API_KEY env) \<and> validate_question_key db (req_question_key e)
        \<and> (\<forall>row. commit_error env row = None) \<longrightarrow>
        (\<exists>r db'. create_conversation_entry env db e = (Inr r, db')))"
proof (intro conjI impI)
  assume a: "create_conversation_entry env db e = (Inr r, db')"
  let ?row = "db_entry_of env db e"
  from a recorder_cases [of env db e]
  have r: "r = from_orm ?row"
    and d: "db' = db\<lparr>conversation_entries := conversation_entries db @ [?row],
                      next_id := Suc (next_id db)\<rparr>"
    by auto
  have v: "\<forall>k. ce_answer_key ?row = Some k \<and> k \<noteq> [] \<longrightarrow>
               (\<exists>a\<in>set (answer_masters db). answer_key a = k \<and> answer_is_active a
                    \<and> answer_question_key a = ce_question_key ?row)"
    using db_entry_of_answer_key [of env db e]
    by (auto simp: validate_answer_key_iff db_entry_of_fields)
  have g: "\<forall>k. req_answer_key e = Some k \<and> k \<noteq> []
                  \<and> \<not> validate_answer_key db k (req_question_key e) \<longrightarrow>
               ce_answer_key ?row = None"
    using db_entry_of_downgrade by blast
  have "conversation_entries db' = conversation_entries db @ [?row]" using d by simp
  with r v g db_entry_of_fields [of env db e]
  show "\<exists>row. conversation_entries db' = conversation_entries db @ [row] \<and> r = from_orm row
         \<and> ce_question_key row = req_question_key e
         \<and> ce_custom_input row = req_custom_input e
         \<and> (\<forall>k. ce_answer_key row = Some k \<and> k \<noteq> [] \<longrightarrow>
               (\<exists>a\<in>set (answer_masters db). answer_key a = k \<and> answer_is_active a
                    \<and> answer_question_key a = ce_question_key row))
         \<and> (\<forall>k. req_answer_key e = Some k \<and> k \<noteq> []
                  \<and> \<not> validate_answer_key db k (req_question_key e) \<longrightarrow>
               ce_answer_key row = None)"
    by blast
next
  assume "truthy (OPENAI_API_KEY env) \<and> validate_question_key db (req_question_key e)
        \<and> (\<forall>row. commit_error env row = None)"
  then show "\<exists>r db'. create_conversation_entry env db e = (Inr r, db')"
    using recorder_succeeds [of env db e] by blast
qed

text \<open>The theorem at the answer key \<open>stale_key\<close>, which belongs to another
  question: the turn is recorded with a null answer key.\<close>

theorem recorder_answer_validity_witness:
  "validate_question_key example_db ''dietary_preference''
   \<and> \<not> validate_answer_key example_db ''stale_key'' ''dietary_preference''
   \<and> (\<exists>r db' row. create_conversation_entry (env_reply ''NONE'') example_db
                  (example_entry (Some ''stale_key'')) = (Inr r, db')
          \<and> conversation_entries db' = conversation_entries example_db @ [row]
          \<and> r = from_orm row \<and> ce_answer_key row = None
          \<and> ce_question_key row = ''dietary_preference'')"
proof -
  let ?e = "example_entry (Some ''stale_key'')"
  have k: "req_question_key ?e = ''dietary_preference''" "req_answer_key ?e = Some ''stale_key''"
    by (simp_all add: example_entry_def)
  have q: "validate_question_key example_db ''dietary_preference''" by code_simp
  have c: "\<forall>row. commit_error (env_reply ''NONE'') row = None" by (simp add: env_reply_def)
  have o: "truthy (OPENAI_API_KEY (env_reply ''NONE''))" by (simp add: env_reply_def)
  have n: "\<not> validate_answer_key example_db ''stale_key'' ''dietary_preference''" by code_simp
  note t = recorder_answer_validity [where env = "env_reply ''NONE''" and db = example_db
      and e = ?e]
  from t [THEN conjunct2] q c o k
  have "\<exists>r db'. create_conversation_entry (env_reply ''NONE'') example_db ?e = (Inr r, db')"
    by simp
  then obtain r db' where
    x: "create_conversation_entry (env_reply ''NONE'') example_db ?e = (Inr r, db')"
    by blast
  from t [of r db', THEN conjunct1] x
  have "\<exists>row. conversation_entries db' = conversation_entries example_db @ [row]
          \<and> r = from_orm row \<and> ce_question_key row = req_question_key ?e
          \<and> (\<forall>k. req_answer_key ?e = Some k \<and> k \<noteq> []
                  \<and> \<not> validate_answer_key example_db k (req_question_key ?e) \<longrightarrow>
               ce_answer_key row = None)"
    by blast
  then obtain row where
    "conversation_entries db' = conversation_entries example_db @ [row]" "r = from_orm row"
    "ce_answer_key row = None" "ce_question_key row = ''dietary_preference''"
    using k n by auto
  with x q n show ?thesis by blast
qed


subsection \<open>C4: fail-closed classification\<close>

text \<open>
  C4 as stated fails for a reply with surrounding whitespace: the model output
  \<open>"veg_key\n"\<close> is not exactly equal to a candidate key or to a sentinel, and the
  result is the candidate key \<open>veg_key\<close>, not \<open>SORRY_DONT_UNDERSTAND\<close>, because the
  reply is stripped before it is compared.
\<close>

theorem padded_key_accepted:
  "analyze_user_response (env_reply (''veg_key'' @ [CHR 0x0A])) (Some ''veggie please'')
      ''dietary_preference'' [(''veg_key'', ''Vegetarian''), (''vegan_key'', ''Vegan'')]
     = Some ''veg_key''
   \<and> ''veg_key'' @ [CHR 0x0A] \<noteq> ''veg_key'' \<and> ''veg_key'' @ [CHR 0x0A] \<noteq> ''vegan_key''
   \<and> ''veg_key'' @ [CHR 0x0A] \<noteq> ''NONE'' \<and> ''veg_key'' @ [CHR 0x0A] \<noteq> ''SUGGESTION_REQUEST''
   \<and> ''veg_key'' \<noteq> SORRY_DONT_UNDERSTAND"
  by code_simp

text \<open>
  C4, amended. When the classifier is called (the candidate list is not empty), its
  reply is stripped of leading and trailing whitespace and then compared: a reply that
  is exactly a candidate key is returned as it is; otherwise the reply \<open>NONE\<close> gives
  \<open>SORRY_DONT_UNDERSTAND\<close>, the reply \<open>SUGGESTION_REQUEST\<close> gives \<open>SUGGESTION_REQUEST\<close>, and
  every other reply gives \<open>SORRY_DONT_UNDERSTAND\<close>; a raised exception gives null, which
  is distinct from \<open>SORRY_DONT_UNDERSTAND\<close>.
\<close>

theorem classification_fail_closed:
  assumes "available_answers \<noteq> []"
  shows "(generate_content env (build_prompt user_text available_answers) = Inr out \<longrightarrow>
       (py_strip out \<in> set (map fst available_answers) \<longrightarrow>
          analyze_user_response env user_text qkey available_answers = Some (py_strip out))
     \<and> (py_strip out \<notin> set (map fst available_answers) \<and> py_strip out = ''NONE'' \<longrightarrow>
          analyze_user_response env user_text qkey available_answers = Some SORRY_DONT_UNDERSTAND)
     \<and> (py_strip out \<notin> set (map fst available_answers) \<and> py_strip out = ''SUGGESTION_REQUEST'' \<longrightarrow>
          analyze_user_response env user_text qkey available_answers = Some SUGGESTION_REQUEST)
     \<and> (py_strip out \<notin> set (map fst available_answers) \<and> py_strip out \<noteq> ''NONE''
          \<and> py_strip out \<noteq> ''SUGGESTION_REQUEST'' \<longrightarrow>
          analyze_user_response env user_text qkey available_answers = Some SORRY_DONT_UNDERSTAND))
   \<and> (generate_content env (build_prompt user_text available_answers) = Inl e \<longrightarrow>
        analyze_user_response env user_text qkey available_answers = None
        \<and> analyze_user_response env user_text qkey available_answers \<noteq> Some SORRY_DONT_UNDERSTAND)"
  using assms by (auto simp add: analyze_user_response_def Let_def simp del: set_map)

text \<open>The theorem at an unknown key with spaces around it, at the two sentinels, at a
  candidate key and at a model call that raises.\<close>

theorem classification_fail_closed_witness:
  "analyze_user_response (env_reply ''  my_own_key '') (Some ''x'') ''dietary_preference''
      [(''veg_key'', ''Vegetarian'')] = Some SORRY_DONT_UNDERSTAND
   \<and> analyze_user_response (env_reply ''NONE'') (Some ''x'') ''dietary_preference''
      [(''veg_key'', ''Vegetarian'')] = Some SORRY_DONT_UNDERSTAND
   \<and> analyze_user_response (env_reply ''SUGGESTION_REQUEST'') (Some ''x'') ''dietary_preference''
      [(''veg_key'', ''Vegetarian'')] = Some SUGGESTION_REQUEST
   \<and> analyze_user_response (env_reply ''veg_key'') (Some ''x'') ''dietary_preference''
      [(''veg_key'', ''Vegetarian'')] = Some ''veg_key''
   \<and> analyze_user_response env_down (Some ''x'') ''dietary_preference''
      [(''veg_key'', ''Vegetarian'')] = None"
proof -
  let ?av = "[(''veg_key'', ''Vegetarian'')]"
  have ne: "?av \<noteq> []" by simp
  have g: "\<And>r. generate_content (env_reply r) (build_prompt (Some ''x'') ?av) = Inr r"
    by (simp add: env_reply_def)
  have d: "generate_content env_down (build_prompt (Some ''x'') ?av) = Inl (OtherException ''timeout'')"
    by (simp add: env_down_def env_reply_def)
  have s: "py_strip ''  my_own_key '' = ''my_own_key''" "py_strip ''NONE'' = ''NONE''"
    "py_strip ''SUGGESTION_REQUEST'' = ''SUGGESTION_REQUEST''" "py_strip ''veg_key'' = ''veg_key''"
    by code_simp+
  note t = classification_fail_closed [OF ne, of _ "Some ''x''"]
  from t [of "env_reply ''  my_own_key ''" "''  my_own_key ''"] g s
  have 1: "analyze_user_response (env_reply ''  my_own_key '') (Some ''x'') ''dietary_preference''
      ?av = Some SORRY_DONT_UNDERSTAND" by simp
  from t [of "env_reply ''NONE''" "''NONE''"] g s
  have 2: "analyze_user_response (env_reply ''NONE'') (Some ''x'') ''dietary_preference''
      ?av = Some SORRY_DONT_UNDERSTAND" by simp
  from t [of "env_reply ''SUGGESTION_REQUEST''" "''SUGGESTION_REQUEST''"] g s
  have 3: "analyze_user_response (env_reply ''SUGGESTION_REQUEST'') (Some ''x'') ''dietary_preference''
      ?av = Some SUGGESTION_REQUEST" by simp
  from t [of "env_reply ''veg_key''" "''veg_key''"] g s
  have 4: "analyze_user_response (env_reply ''veg_key'') (Some ''x'') ''dietary_preference''
      ?av = Some ''veg_key''" by simp
  from t [of env_down _ _ "OtherException ''timeout''"] d
  have 5: "analyze_user_response env_down (Some ''x'') ''dietary_preference'' ?av = None" by simp
  from 1 2 3 4 5 show ?thesis by blast
qed


subsection \<open>C6: unknown and inactive question keys\<close>

text \<open>
  C6 as stated fails for the Progression Engine: \<open>get_next_question\<close> validates
  nothing. For the unknown key \<open>ghost\<close> it returns null, which the route reports as
  completion, and for the inactive key \<open>old_question\<close> it returns the next question.
\<close>

theorem progression_accepts_unknown_key:
  "\<not> validate_question_key example_db ''ghost''
   \<and> get_next_question example_db ''s1'' (Some ''ghost'') = None
   \<and> next_question_route example_db ''s1'' (Some ''ghost'')
       = Response (Completed ''No more questions'')
   \<and> \<not> validate_question_key example_db ''old_question''
   \<and> get_next_question example_db ''s1'' (Some ''old_question'')
       = Some \<lparr>question_key = ''hunger_level'', question_text = ''How hungry?'',
               question_order = 4, question_is_active = True\<rparr>"
  by code_simp

text \<open>
  C6, amended. Every call of the Recorder with a question key that is unknown or
  inactive fails with a \<open>ValueError\<close> and persists nothing: the error "Invalid question
  key" when the key of the Recorder's analyzer (\<open>OPENAI_API_KEY\<close>) is set, and the error
  of that analyzer, raised before the validation, when it is not. The select and voice
  routes surface it as status 400 when the coordinator reaches the Recorder (the answer
  key is not a sentinel that is answered without recording). The Progression Engine
  does not validate: for a current question key that is not empty and names no question
  it returns null, and the route answers "No more questions"; an empty current question
  key is treated as absent.
\<close>

theorem invalid_question_key_handling:
  "(\<not> validate_question_key db (req_question_key e) \<longrightarrow>
      (\<exists>m. create_conversation_entry env db e = (Inl (ValueError m), db))
      \<and> (truthy (OPENAI_API_KEY env) \<longrightarrow>
           create_conversation_entry env db e
             = (Inl (ValueError (''Invalid question key: '' @ req_question_key e)), db)))
   \<and> (\<not> validate_question_key db (sel_question_key request)
       \<and> select_answer_key env db (sel_question_key request) (sel_answer_key request)
            (sel_responseText request) \<noteq> Some SORRY_DONT_UNDERSTAND
       \<and> select_answer_key env db (sel_question_key request) (sel_answer_key request)
            (sel_responseText request) \<noteq> Some SUGGESTION_REQUEST \<longrightarrow>
      (\<exists>m. submit_select_answer env db request = (HTTPException 400 m, db))
      \<and> (truthy (OPENAI_API_KEY env) \<longrightarrow>
           submit_select_answer env db request
             = (HTTPException 400 (''Invalid question key: '' @ sel_question_key request), db)))
   \<and> (\<not> validate_question_key db (voi_question_key vrequest)
       \<and> voice_answer_key env db (voi_question_key vrequest) (voi_voice_text vrequest)
            \<noteq> Some SORRY_DONT_UNDERSTAND \<longrightarrow>
      (\<exists>m. submit_voice_answer env db vrequest = (HTTPException 400 m, db))
      \<and> (truthy (OPENAI_API_KEY env) \<longrightarrow>
           submit_voice_answer env db vrequest
             = (HTTPException 400 (''Invalid question key: '' @ voi_question_key vrequest), db)))
   \<and> (k \<noteq> [] \<and> k \<notin> question_key ` set (question_masters db) \<longrightarrow>
        get_next_question db sid (Some k) = None
        \<and> next_question_route db sid (Some k) = Response (Completed ''No more questions''))
   \<and> get_next_question db sid (Some []) = get_next_question db sid None"
proof (intro conjI impI)
  assume a: "\<not> validate_question_key db (req_question_key e)"
  from recorder_rejects [OF a, of env]
  show "\<exists>m. create_conversation_entry env db e = (Inl (ValueError m), db)" by blast
  {
    assume "truthy (OPENAI_API_KEY env)"
    with recorder_rejects [OF a, of env]
    show "create_conversation_entry env db e
             = (Inl (ValueError (''Invalid question key: '' @ req_question_key e)), db)"
      by blast
  }
next
  assume a: "\<not> validate_question_key db (sel_question_key request)
       \<and> select_answer_key env db (sel_question_key request) (sel_answer_key request)
            (sel_responseText request) \<noteq> Some SORRY_DONT_UNDERSTAND
       \<and> select_answer_key env db (sel_question_key request) (sel_answer_key request)
            (sel_responseText request) \<noteq> Some SUGGESTION_REQUEST"
  let ?e = "\<lparr>req_session_id = sel_session_id request, req_user_id = sel_user_id request,
             req_question_key = sel_question_key request,
             req_answer_key = convert_null_string
               (select_answer_key env db (sel_question_key request) (sel_answer_key request)
                  (sel_responseText request)),
             req_custom_input = None,
             req_responseText = convert_null_string (sel_responseText request),
             req_select_type = ''select''\<rparr>"
  have p: "process_select_answer env db (sel_session_id request) (sel_user_id request)
             (sel_question_key request) (sel_answer_key request) (sel_responseText request)
           = create_conversation_entry env db ?e"
    using a by (simp add: process_select_answer_def Let_def)
  have n: "\<not> validate_question_key db (req_question_key ?e)" using a by simp
  from recorder_rejects [OF n, of env]
  show "\<exists>m. submit_select_answer env db request = (HTTPException 400 m, db)"
    by (auto simp: submit_select_answer_def p)
  {
    assume "truthy (OPENAI_API_KEY env)"
    with recorder_rejects [OF n, of env]
    show "submit_select_answer env db request
             = (HTTPException 400 (''Invalid question key: '' @ sel_question_key request), db)"
      by (simp add: submit_select_answer_def p)
  }
next
  assume a: "\<not> validate_question_key db (voi_question_key vrequest)
       \<and> voice_answer_key env db (voi_question_key vrequest) (voi_voice_text vrequest)
            \<noteq> Some SORRY_DONT_UNDERSTAND"
  obtain s where s: "get_food_suggestions env (voi_voice_text vrequest)
      (get_user_language db (voi_session_id vrequest)) = Inr s"
    using food_suggestions_returns by blast
  let ?e = "\<lparr>req_session_id = voi_session_id vrequest, req_user_id = voi_user_id vrequest,
             req_question_key = voi_question_key vrequest,
             req_answer_key = convert_null_string
               (voice_answer_key env db (voi_question_key vrequest) (voi_voice_text vrequest)),
             req_custom_input = voi_voice_text vrequest,
             req_responseText = convert_null_string (voi_voice_text vrequest),
             req_select_type = ''voice''\<rparr>"
  have n: "\<not> validate_question_key db (req_question_key ?e)"
    "\<not> validate_question_key db (req_question_key (?e\<lparr>req_responseText := Some s\<rparr>))"
    using a by simp_all
  note r = recorder_rejects [OF n(1), of env] recorder_rejects [OF n(2), of env]
  from r a s
  show "\<exists>m. submit_voice_answer env db vrequest = (HTTPException 400 m, db)"
    by (auto simp: submit_voice_answer_def process_voice_answer_def Let_def)
  {
    assume "truthy (OPENAI_API_KEY env)"
    with r a s
    show "submit_voice_answer env db vrequest
             = (HTTPException 400 (''Invalid question key: '' @ voi_question_key vrequest), db)"
      by (auto simp: submit_voice_answer_def process_voice_answer_def Let_def)
  }
next
  assume a: "k \<noteq> [] \<and> k \<notin> question_key ` set (question_masters db)"
  then have g: "get_next_question db sid (Some k) = None"
    by (simp add: get_next_question_def find_None_unknown_key)
  then show "get_next_question db sid (Some k) = None" .
  from g show "next_question_route db sid (Some k) = Response (Completed ''No more questions'')"
    by (simp add: next_question_route_def)
next
  show "get_next_question db sid (Some []) = get_next_question db sid None"
    by (simp add: get_next_question_def)
qed

text \<open>The theorem at the unknown question key \<open>ghost\<close>, with the key of the analyzer
  set and without it.\<close>

theorem invalid_question_key_handling_witness:
  "\<not> validate_question_key example_db ''ghost''
   \<and> create_conversation_entry (env_reply ''NONE'') example_db
        ((example_entry None)\<lparr>req_question_key := ''ghost''\<rparr>)
       = (Inl (ValueError ''Invalid question key: ghost''), example_db)
   \<and> create_conversation_entry env_no_keys example_db
        ((example_entry None)\<lparr>req_question_key := ''ghost''\<rparr>)
       = (Inl (ValueError ''OPENAI_API_KEY not found in environment variables''), example_db)
   \<and> submit_select_answer (env_reply ''NONE'') example_db
        \<lparr>sel_session_id = None, sel_user_id = None, sel_question_key = ''ghost'',
         sel_answer_key = Some ''veg_key'', sel_responseText = None\<rparr>
       = (HTTPException 400 ''Invalid question key: ghost'', example_db)
   \<and> submit_voice_answer (env_reply ''NONE'') example_db
        \<lparr>voi_session_id = None, voi_user_id = None, voi_question_key = ''ghost'',
         voi_voice_text = Some ''i eat veg''\<rparr>
       = (HTTPException 400 ''Invalid question key: ghost'', example_db)
   \<and> get_next_question example_db ''s1'' (Some ''ghost'') = None"
proof -
  let ?e = "(example_entry None)\<lparr>req_question_key := ''ghost''\<rparr>"
  let ?r = "\<lparr>sel_session_id = None, sel_user_id = None, sel_question_key = ''ghost'',
         sel_answer_key = Some ''veg_key'', sel_responseText = None\<rparr>"
  let ?v = "\<lparr>voi_session_id = None, voi_user_id = None, voi_question_key = ''ghost'',
         voi_voice_text = Some ''i eat veg''\<rparr>"
  have g: "\<not> validate_question_key example_db ''ghost''" by code_simp
  have k: "''ghost'' \<noteq> [] \<and> ''ghost'' \<notin> question_key ` set (question_masters example_db)"
    by (simp add: example_db_def)
  have s: "select_answer_key (env_reply ''NONE'') example_db ''ghost'' (Some ''veg_key'') None
       = Some ''veg_key''" by code_simp
  have v: "voice_answer_key (env_reply ''NONE'') example_db ''ghost'' (Some ''i eat veg'') = None"
    by code_simp
  have o: "truthy (OPENAI_API_KEY (env_reply ''NONE''))" by (simp add: env_reply_def)
  have n: "Some ''veg_key'' \<noteq> Some SORRY_DONT_UNDERSTAND"
    "Some ''veg_key'' \<noteq> Some SUGGESTION_REQUEST"
    by (simp_all add: SORRY_DONT_UNDERSTAND_def SUGGESTION_REQUEST_def)
  have u: "create_conversation_entry env_no_keys example_db ?e
       = (Inl (ValueError ''OPENAI_API_KEY not found in environment variables''), example_db)"
    by code_simp
  from invalid_question_key_handling [where db = example_db and e = ?e
      and env = "env_reply ''NONE''" and request = ?r and vrequest = ?v and k = "''ghost''"
      and sid = "''s1''"] g k s v n o u
  show ?thesis by (simp add: example_entry_def)
qed


subsection \<open>C7: the static fallback list\<close>

text \<open>
  C7 as stated fails: when the three item queries return no rows, the result of
  \<open>get_suggestions_by_dietary_preference\<close> is the empty list, not the fallback list.
\<close>

theorem no_rows_no_fallback:
  "get_suggestions_by_dietary_preference env_no_rows ''veg'' 5 = []
   \<and> get_fallback_suggestions ''veg'' \<noteq> []"
  by code_simp

text \<open>
  C7, amended. For every dietary preference and limit, if the three item queries
  succeed and return no rows, \<open>get_suggestions_by_dietary_preference\<close> returns the empty
  list; the static fallback list keyed by the dietary preference has three items for
  every preference.
\<close>

theorem suggestions_empty_without_rows:
  "((\<forall>d l. order_items_query env d l = Inr []) \<and> (\<forall>d l. cart_items_query env d l = Inr [])
     \<and> (\<forall>d l. all_items_query env d l = Inr []) \<longrightarrow>
      get_suggestions_by_dietary_preference env dietary_preference limit = [])
   \<and> length (get_fallback_suggestions dietary_preference) = 3"
proof (intro conjI impI)
  assume a: "(\<forall>d l. order_items_query env d l = Inr []) \<and> (\<forall>d l. cart_items_query env d l = Inr [])
     \<and> (\<forall>d l. all_items_query env d l = Inr [])"
  then have "collect_suggestions env d limit = Inr []" for d
    by (simp add: collect_suggestions_def get_suggestions_from_orders_def
        get_suggestions_from_cart_def get_general_suggestions_def py_take_def)
  then show "get_suggestions_by_dietary_preference env dietary_preference limit = []"
    by (simp add: get_suggestions_by_dietary_preference_def Let_def)
next
  show "length (get_fallback_suggestions dietary_preference) = 3" by (rule fallback_length)
qed

text \<open>The theorem at an environment whose queries return no rows.\<close>

theorem suggestions_empty_without_rows_witness:
  "get_suggestions_by_dietary_preference env_no_rows ''vegan'' 5 = []
   \<and> length (get_fallback_suggestions ''vegan'') = 3"
proof -
  have "(\<forall>d l. order_items_query env_no_rows d l = Inr [])
     \<and> (\<forall>d l. cart_items_query env_no_rows d l = Inr [])
     \<and> (\<forall>d l. all_items_query env_no_rows d l = Inr [])"
    by (simp add: env_no_rows_def env_reply_def)
  with suggestions_empty_without_rows [of env_no_rows "''vegan''" 5] show ?thesis by blast
qed

subsection \<open>C8: the suggestion operation never raises\<close>

text \<open>
  C8 as stated fails for an utterance that is null (the voice request allows it): the
  handler of \<open>get_food_suggestions\<close> answers with a fixed English sentence, whatever the
  language. For the language \<open>es\<close> the result is the one for \<open>en\<close>, and it is not the
  sentence of the Spanish template.
\<close>

theorem null_utterance_not_localized:
  "get_food_suggestions (env_reply ''NONE'') None ''es''
     = Inr (''Sorry, I couldn'' @ [CHR 0x27] @
            ''t get food suggestions at the moment. Please try again later.'')
   \<and> get_food_suggestions (env_reply ''NONE'') None ''es''
     = get_food_suggestions (env_reply ''NONE'') None ''en''
   \<and> get_food_suggestions (env_reply ''NONE'') None ''es''
     \<noteq> Inr (fallback (messages_es ''veg''))"
  by code_simp

text \<open>
  C8, amended. For every input, including when every data-source query raises, the
  suggestion operation (\<open>get_food_suggestions\<close>, which ends with the formatting step) never
  raises and returns a non-empty string. For an utterance that is a string the reply is
  localized: it is built from the template of the requested language, and from the
  template of the default language \<open>en\<close> when the requested language has none (the
  sentence \<open>fallback\<close> of the template when there is no suggestion, and otherwise its
  \<open>intro\<close>, the numbered items and its \<open>follow_up\<close>). For a null utterance the reply is a
  fixed English sentence.
\<close>

theorem suggestion_reply:
  "(\<exists>s. get_food_suggestions env user_text language = Inr s \<and> s \<noteq> [])
   \<and> get_food_suggestions env None language
       = Inr (''Sorry, I couldn'' @ [CHR 0x27] @
              ''t get food suggestions at the moment. Please try again later.'')
   \<and> (\<exists>dp. extract_dietary_preference (Some t) = Inr dp
          \<and> (dp = ''vegan'' \<or> dp = ''non-veg'' \<or> dp = ''veg'')
          \<and> get_food_suggestions env (Some t) language
              = Inr (if get_suggestions_by_dietary_preference env dp 5 = []
                     then fallback (template_for language dp)
                     else format_items 1 (get_suggestions_by_dietary_preference env dp 5)
                            (intro (template_for language dp) @ [CHR 0x0A, CHR 0x0A])
                          @ follow_up (template_for language dp)))
   \<and> (language \<notin> {''en'', ''es'', ''fr'', ''hi''} \<longrightarrow>
        template_for language d = messages_en d
        \<and> get_food_suggestions env user_text language
            = get_food_suggestions env user_text ''en'')"
proof (intro conjI impI)
  show "\<exists>s. get_food_suggestions env user_text language = Inr s \<and> s \<noteq> []"
    by (cases "extract_dietary_preference user_text")
       (simp_all add: get_food_suggestions_def format_with_language_nonempty)
next
  show "get_food_suggestions env None language
       = Inr (''Sorry, I couldn'' @ [CHR 0x27] @
              ''t get food suggestions at the moment. Please try again later.'')"
    by (simp add: get_food_suggestions_def extract_dietary_preference_def)
next
  have "\<exists>dp. extract_dietary_preference (Some t) = Inr dp
          \<and> (dp = ''vegan'' \<or> dp = ''non-veg'' \<or> dp = ''veg'')"
    by (simp add: extract_dietary_preference_def Let_def)
  then obtain dp where dp: "extract_dietary_preference (Some t) = Inr dp"
    and v: "dp = ''vegan'' \<or> dp = ''non-veg'' \<or> dp = ''veg''"
    by blast
  have "get_food_suggestions env (Some t) language
      = Inr (if get_suggestions_by_dietary_preference env dp 5 = []
             then fallback (template_for language dp)
             else format_items 1 (get_suggestions_by_dietary_preference env dp 5)
                    (intro (template_for language dp) @ [CHR 0x0A, CHR 0x0A])
                  @ follow_up (template_for language dp))"
    by (simp add: get_food_suggestions_def dp format_suggestions_response_with_language_def
        template_lookup Let_def)
  with dp v
  show "\<exists>dp. extract_dietary_preference (Some t) = Inr dp
          \<and> (dp = ''vegan'' \<or> dp = ''non-veg'' \<or> dp = ''veg'')
          \<and> get_food_suggestions env (Some t) language
              = Inr (if get_suggestions_by_dietary_preference env dp 5 = []
                     then fallback (template_for language dp)
                     else format_items 1 (get_suggestions_by_dietary_preference env dp 5)
                            (intro (template_for language dp) @ [CHR 0x0A, CHR 0x0A])
                          @ follow_up (template_for language dp))"
    by blast
next
  assume a: "language \<notin> {''en'', ''es'', ''fr'', ''hi''}"
  then show "template_for language d = messages_en d" by (simp add: template_for_def)
  from a show "get_food_suggestions env user_text language
            = get_food_suggestions env user_text ''en''"
    by (cases "extract_dietary_preference user_text")
       (simp_all add: get_food_suggestions_def default_language_template)
qed

text \<open>The theorem at the language \<open>es\<close> with no suggestion (the Spanish apology for the
  preference \<open>vegan\<close>), at the language \<open>fr\<close> with one suggestion (the French
  introduction, the item and the French closing question), and at the language \<open>de\<close>,
  which has no template.\<close>

theorem suggestion_reply_witness:
  "get_food_suggestions (env_reply ''NONE'') (Some ''Algo VEGANO'') ''es''
     = Inr (fallback (messages_es ''vegan''))
   \<and> get_food_suggestions env_one_row (Some ''suggest me something'') ''fr''
     = Inr (format_items 1
              [\<lparr>s_item_name = ''Paneer Tikka'', s_description = ''Delicious food item'',
                s_price = ''$9.5'', s_category = ''Starter'', s_source = ''Popular Orders''\<rparr>]
              (intro (messages_fr ''veg'') @ [CHR 0x0A, CHR 0x0A])
            @ follow_up (messages_fr ''veg''))
   \<and> get_food_suggestions (env_reply ''NONE'') (Some ''suggest me something'') ''de''
     = get_food_suggestions (env_reply ''NONE'') (Some ''suggest me something'') ''en''
   \<and> get_food_suggestions (env_reply ''NONE'') (Some ''suggest me something'') ''en''
     = Inr (''Sorry, I couldn'' @ [CHR 0x27] @
            ''t find any veg food suggestions at the moment. Please try again later.'')"
proof -
  have x1: "extract_dietary_preference (Some ''Algo VEGANO'') = Inr ''vegan''" by code_simp
  have x2: "extract_dietary_preference (Some ''suggest me something'') = Inr ''veg''"
    by code_simp
  have g1: "get_suggestions_by_dietary_preference (env_reply ''NONE'') ''vegan'' 5 = []"
    by code_simp
  have g2: "get_suggestions_by_dietary_preference env_one_row ''veg'' 5
      = [\<lparr>s_item_name = ''Paneer Tikka'', s_description = ''Delicious food item'',
          s_price = ''$9.5'', s_category = ''Starter'', s_source = ''Popular Orders''\<rparr>]"
    by code_simp
  have t: "template_for ''es'' ''vegan'' = messages_es ''vegan''"
    "template_for ''fr'' ''veg'' = messages_fr ''veg''"
    by (simp_all add: template_for_def)
  from suggestion_reply [where env = "env_reply ''NONE''" and t = "''Algo VEGANO''"
      and language = "''es''"] x1 g1 t
  have a: "get_food_suggestions (env_reply ''NONE'') (Some ''Algo VEGANO'') ''es''
     = Inr (fallback (messages_es ''vegan''))"
    by auto
  from suggestion_reply [where env = env_one_row and t = "''suggest me something''"
      and language = "''fr''"] x2 g2 t
  have b: "get_food_suggestions env_one_row (Some ''suggest me something'') ''fr''
     = Inr (format_items 1
              [\<lparr>s_item_name = ''Paneer Tikka'', s_description = ''Delicious food item'',
                s_price = ''$9.5'', s_category = ''Starter'', s_source = ''Popular Orders''\<rparr>]
              (intro (messages_fr ''veg'') @ [CHR 0x0A, CHR 0x0A])
            @ follow_up (messages_fr ''veg''))"
    by auto
  have l: "''de'' \<notin> {''en'', ''es'', ''fr'', ''hi''}" by simp
  have e: "get_food_suggestions (env_reply ''NONE'') (Some ''suggest me something'') ''en''
     = Inr (''Sorry, I couldn'' @ [CHR 0x27] @
            ''t find any veg food suggestions at the moment. Please try again later.'')"
    by code_simp
  from suggestion_reply [where env = "env_reply ''NONE''"
      and user_text = "Some ''suggest me something''" and language = "''de''"] l
  have c: "get_food_suggestions (env_reply ''NONE'') (Some ''suggest me something'') ''de''
     = get_food_suggestions (env_reply ''NONE'') (Some ''suggest me something'') ''en''"
    by blast
  from a b c e show ?thesis by blast
qed


subsection \<open>C9: recovery from a transport failure\<close>

text \<open>
  C9 as stated fails in voice mode: when the model call raises, the turn does not take
  the AMBIGUOUS outcome (the entry with id 0, the answer key \<open>SORRY_DONT_UNDERSTAND\<close> and
  the apology message). It goes through the Recorder like any other turn: the caller
  receives the recorded entry, with a null answer key and no message, reported as not
  matched. And when neither key is set, the failure of the classifier is recovered but
  the call still ends with an error, the one of the Recorder's own analyzer.
\<close>

theorem transport_failure_without_apology:
  "voice_answer_key env_down example_db ''dietary_preference'' (Some ''i eat veg'') = None
   \<and> fst (process_voice_answer env_down example_db (Some ''s1'') None ''dietary_preference''
          (Some ''i eat veg'') (Some ''i eat veg''))
     = Inr \<lparr>conversation_entry =
              \<lparr>resp_id = 1, resp_session_id = Some ''s1'', resp_user_id = None,
               resp_question_key = ''dietary_preference'', resp_answer_key = None,
               resp_custom_input = Some ''i eat veg'', resp_responseText = None,
               resp_created_at = 0\<rparr>,
            matched = False, matched_answer_key = None,
            result_voice_text = Some ''i eat veg'', user_language = ''es''\<rparr>
   \<and> process_voice_answer env_no_keys example_db (Some ''s1'') None ''dietary_preference''
          (Some ''i eat veg'') (Some ''i eat veg'')
     = (Inl (ValueError ''OPENAI_API_KEY not found in environment variables''), example_db)"
  by code_simp

text \<open>
  C9, amended. For every coordinator call in which the classifier invocation raises
  (the constructor of the analyzer, or the model call for the prompt of this turn), the
  failure of the classifier does not reach the caller: in select mode the answer key
  stays the one originally supplied, and the turn is handled with it; in voice mode the
  answer key is null, and the turn goes to the Recorder. When the key of the Recorder's
  analyzer (\<open>OPENAI_API_KEY\<close>) is set, the question key is active and the store accepts
  every row, the call returns normally; in voice mode the turn is then recorded with a
  null answer key and returned as the recorded entry, reported as not matched and
  without the apology message of the AMBIGUOUS outcome.
\<close>

theorem transport_failure_recovered:
  "(isl (GeminiAnalyzer_init env)
      \<or> isl (generate_content env (build_prompt rt (get_active_answers_for_question db qkey))) \<longrightarrow>
      select_answer_key env db qkey ak rt = ak
      \<and> (ak \<noteq> Some SORRY_DONT_UNDERSTAND \<and> ak \<noteq> Some SUGGESTION_REQUEST \<longrightarrow>
           process_select_answer env db sid uid qkey ak rt =
             create_conversation_entry env db
               \<lparr>req_session_id = sid, req_user_id = uid, req_question_key = qkey,
                req_answer_key = convert_null_string ak, req_custom_input = None,
                req_responseText = convert_null_string rt, req_select_type = ''select''\<rparr>)
      \<and> (truthy (OPENAI_API_KEY env) \<and> validate_question_key db qkey
           \<and> (\<forall>row. commit_error env row = None) \<longrightarrow>
           \<not> isl (fst (process_select_answer env db sid uid qkey ak rt))))
   \<and> (isl (GeminiAnalyzer_init env)
      \<or> isl (generate_content env (build_prompt vt (get_active_answers_for_question db qkey))) \<longrightarrow>
      voice_answer_key env db qkey vt = None
      \<and> (truthy (OPENAI_API_KEY env) \<and> validate_question_key db qkey
           \<and> (\<forall>row. commit_error env row = None) \<longrightarrow>
           (\<exists>res row. process_voice_answer env db sid uid qkey vt rt =
               (Inr res, db\<lparr>conversation_entries := conversation_entries db @ [row],
                            next_id := Suc (next_id db)\<rparr>)
              \<and> ce_answer_key row = None \<and> ce_custom_input row = vt
              \<and> \<not> matched res \<and> matched_answer_key res = None
              \<and> conversation_entry res = from_orm row
              \<and> resp_id (conversation_entry res) = next_id db
              \<and> resp_answer_key (conversation_entry res) = None
              \<and> resp_responseText (conversation_entry res) = None)))"
proof (intro conjI impI)
  assume a: "isl (GeminiAnalyzer_init env)
      \<or> isl (generate_content env (build_prompt rt (get_active_answers_for_question db qkey)))"
  show k: "select_answer_key env db qkey ak rt = ak" by (rule select_key_fallback [OF a])
  {
    assume "ak \<noteq> Some SORRY_DONT_UNDERSTAND \<and> ak \<noteq> Some SUGGESTION_REQUEST"
    then show "process_select_answer env db sid uid qkey ak rt =
             create_conversation_entry env db
               \<lparr>req_session_id = sid, req_user_id = uid, req_question_key = qkey,
                req_answer_key = convert_null_string ak, req_custom_input = None,
                req_responseText = convert_null_string rt, req_select_type = ''select''\<rparr>"
      by (simp add: process_select_answer_def k)
  }
  {
    assume "truthy (OPENAI_API_KEY env) \<and> validate_question_key db qkey
           \<and> (\<forall>row. commit_error env row = None)"
    then show "\<not> isl (fst (process_select_answer env db sid uid qkey ak rt))"
      using select_returns by blast
  }
next
  assume a: "isl (GeminiAnalyzer_init env)
      \<or> isl (generate_content env (build_prompt vt (get_active_answers_for_question db qkey)))"
  show k: "voice_answer_key env db qkey vt = None" by (rule voice_key_fallback [OF a])
  {
    assume b: "truthy (OPENAI_API_KEY env) \<and> validate_question_key db qkey
           \<and> (\<forall>row. commit_error env row = None)"
    let ?e = "\<lparr>req_session_id = sid, req_user_id = uid, req_question_key = qkey,
                req_answer_key = None, req_custom_input = vt,
                req_responseText = convert_null_string rt, req_select_type = ''voice''\<rparr>"
    let ?row = "db_entry_of env db ?e"
    have q: "validate_question_key db (req_question_key ?e)" using b by simp
    from b have c: "\<forall>row. commit_error env row = None" and o: "truthy (OPENAI_API_KEY env)"
      by blast+
    have "process_voice_answer env db sid uid qkey vt rt =
       (Inr \<lparr>conversation_entry = from_orm ?row, matched = False, matched_answer_key = None,
              result_voice_text = vt, user_language = get_user_language db sid\<rparr>,
        db\<lparr>conversation_entries := conversation_entries db @ [?row],
           next_id := Suc (next_id db)\<rparr>)"
      using recorder_succeeds [OF o q c]
      by (simp add: process_voice_answer_def k Let_def convert_null_string_def)
    moreover have "ce_answer_key ?row = None" "ce_custom_input ?row = vt"
      "resp_id (from_orm ?row) = next_id db" "resp_answer_key (from_orm ?row) = None"
      "resp_responseText (from_orm ?row) = None"
      by (simp_all add: db_entry_of_def from_orm_def Let_def)
    ultimately show "\<exists>res row. process_voice_answer env db sid uid qkey vt rt =
               (Inr res, db\<lparr>conversation_entries := conversation_entries db @ [row],
                            next_id := Suc (next_id db)\<rparr>)
              \<and> ce_answer_key row = None \<and> ce_custom_input row = vt
              \<and> \<not> matched res \<and> matched_answer_key res = None
              \<and> conversation_entry res = from_orm row
              \<and> resp_id (conversation_entry res) = next_id db
              \<and> resp_answer_key (conversation_entry res) = None
              \<and> resp_responseText (conversation_entry res) = None"
      by (intro exI [of _ "\<lparr>conversation_entry = from_orm ?row, matched = False,
              matched_answer_key = None, result_voice_text = vt,
              user_language = get_user_language db sid\<rparr>"] exI [of _ ?row]) simp
  }
qed

text \<open>The theorem at an environment whose model call raises.\<close>

theorem transport_failure_recovered_witness:
  "isl (generate_content env_down (build_prompt (Some ''i eat veg'')
          (get_active_answers_for_question example_db ''dietary_preference'')))
   \<and> select_answer_key env_down example_db ''dietary_preference'' (Some ''veg_key'')
        (Some ''i eat veg'') = Some ''veg_key''
   \<and> map ce_answer_key (conversation_entries (snd
         (process_select_answer env_down example_db (Some ''s1'') None ''dietary_preference''
            (Some ''veg_key'') (Some ''i eat veg'')))) = [Some ''veg_key'']
   \<and> \<not> isl (fst (process_select_answer env_down example_db (Some ''s1'') None
          ''dietary_preference'' (Some ''veg_key'') (Some ''i eat veg'')))
   \<and> voice_answer_key env_down example_db ''dietary_preference'' (Some ''i eat veg'') = None
   \<and> truthy (OPENAI_API_KEY env_down)
   \<and> validate_question_key example_db ''dietary_preference''
   \<and> (\<exists>res row. process_voice_answer env_down example_db (Some ''s1'') None
          ''dietary_preference'' (Some ''i eat veg'') (Some ''i eat veg'') =
            (Inr res, example_db\<lparr>conversation_entries := conversation_entries example_db @ [row],
                                 next_id := Suc (next_id example_db)\<rparr>)
          \<and> ce_answer_key row = None \<and> \<not> matched res
          \<and> resp_responseText (conversation_entry res) = None)"
proof -
  have f: "isl (generate_content env_down (build_prompt (Some ''i eat veg'')
          (get_active_answers_for_question example_db ''dietary_preference'')))"
    by (simp add: env_down_def env_reply_def)
  have q: "validate_question_key example_db ''dietary_preference''" by code_simp
  have c: "\<forall>row. commit_error env_down row = None" by (simp add: env_down_def env_reply_def)
  have o: "truthy (OPENAI_API_KEY env_down)" by (simp add: env_down_def env_reply_def)
  have m: "map ce_answer_key (conversation_entries (snd
         (process_select_answer env_down example_db (Some ''s1'') None ''dietary_preference''
            (Some ''veg_key'') (Some ''i eat veg'')))) = [Some ''veg_key'']"
    by code_simp
  note t = transport_failure_recovered [where env = env_down and rt = "Some ''i eat veg''"
      and db = example_db and qkey = "''dietary_preference''" and ak = "Some ''veg_key''"
      and sid = "Some ''s1''" and uid = None and vt = "Some ''i eat veg''"]
  from t f have s: "select_answer_key env_down example_db ''dietary_preference'' (Some ''veg_key'')
        (Some ''i eat veg'') = Some ''veg_key''" by blast
  from t f have v: "voice_answer_key env_down example_db ''dietary_preference''
        (Some ''i eat veg'') = None" by blast
  from t f q c o have r: "\<exists>res row. process_voice_answer env_down example_db (Some ''s1'') None
          ''dietary_preference'' (Some ''i eat veg'') (Some ''i eat veg'') =
            (Inr res, example_db\<lparr>conversation_entries := conversation_entries example_db @ [row],
                                 next_id := Suc (next_id example_db)\<rparr>)
          \<and> ce_answer_key row = None \<and> \<not> matched res
          \<and> resp_responseText (conversation_entry res) = None" by blast
  from t f q c o have i: "\<not> isl (fst (process_select_answer env_down example_db (Some ''s1'') None
          ''dietary_preference'' (Some ''veg_key'') (Some ''i eat veg'')))" by blast
  from f s m i v o q r show ?thesis by blast
qed


subsection \<open>C5: the order of the wizard\<close>

text \<open>
  C5 as stated fails for a question whose key is the empty string: the first call
  returns it, and the call chained on its key treats the empty key as absent and returns
  the same question again, so the ranks do not increase and the wizard never completes.
\<close>

theorem empty_key_chain_stalls:
  "get_next_question db_empty_key ''s1'' None
     = Some \<lparr>question_key = '''', question_text = ''What do you eat?'',
             question_order = 1, question_is_active = True\<rparr>
   \<and> get_next_question db_empty_key ''s1''
        (Some (question_key \<lparr>question_key = '''', question_text = ''What do you eat?'',
                              question_order = 1, question_is_active = True\<rparr>))
     = Some \<lparr>question_key = '''', question_text = ''What do you eat?'',
             question_order = 1, question_is_active = True\<rparr>"
  by code_simp

text \<open>
  C5, amended. With no current question key, \<open>get_next_question\<close> returns an active
  question of the smallest order rank, or null if there is none. With a non-empty
  current question key that names the question \<open>c\<close>, it returns an active question of the
  smallest order rank strictly greater than the rank of \<open>c\<close>, or null when none remains.
  Consequently, when the question keys are unique and none is the empty string, the
  calls chained on the question returned before yield strictly increasing ranks, and
  the chain reaches null within as many calls as there are questions.
\<close>

theorem progression_order:
  "(get_next_question db sid None = None \<longleftrightarrow>
       filter question_is_active (question_masters db) = [])
   \<and> (get_next_question db sid None = Some q \<longrightarrow>
        q \<in> set (question_masters db) \<and> question_is_active q
        \<and> (\<forall>q'\<in>set (question_masters db).
              question_is_active q' \<longrightarrow> question_order q \<le> question_order q'))
   \<and> (k \<noteq> [] \<and> find (\<lambda>x. question_key x = k) (question_masters db) = Some c \<longrightarrow>
        (get_next_question db sid (Some k) = None \<longleftrightarrow>
           \<not> (\<exists>q'\<in>set (question_masters db).
                 question_is_active q' \<and> question_order c < question_order q'))
        \<and> (get_next_question db sid (Some k) = Some n \<longrightarrow>
             n \<in> set (question_masters db) \<and> question_is_active n
             \<and> question_order c < question_order n
             \<and> (\<forall>q'\<in>set (question_masters db).
                   question_is_active q' \<and> question_order c < question_order q' \<longrightarrow>
                   question_order n \<le> question_order q')))
   \<and> (distinct (map question_key (question_masters db))
        \<and> [] \<notin> question_key ` set (question_masters db) \<longrightarrow>
        sorted_wrt (<) (map question_order (wizard_chain fuel db sid))
        \<and> (length (question_masters db) \<le> fuel \<and> wizard_chain fuel db sid \<noteq> [] \<longrightarrow>
             get_next_question db sid
               (Some (question_key (last (wizard_chain fuel db sid)))) = None))"
  using next_first [of db sid q] next_later [of k db c sid n]
    wizard_chain_sorted [of db fuel sid] wizard_chain_completes [of db fuel sid]
  by blast

text \<open>The theorem at the example catalogue: three active questions of ranks 1, 2 and 4
  are returned in this order, and the next call returns null.\<close>

theorem progression_order_witness:
  "get_next_question example_db ''s1'' None
     = Some \<lparr>question_key = ''dietary_preference'', question_text = ''What do you eat?'',
             question_order = 1, question_is_active = True\<rparr>
   \<and> get_next_question example_db ''s1'' (Some ''dietary_preference'')
     = Some \<lparr>question_key = ''cuisine_type'', question_text = ''Which cuisine?'',
             question_order = 2, question_is_active = True\<rparr>
   \<and> question_order \<lparr>question_key = ''dietary_preference'', question_text = ''What do you eat?'',
             question_order = 1, question_is_active = True\<rparr>
     < question_order \<lparr>question_key = ''cuisine_type'', question_text = ''Which cuisine?'',
             question_order = 2, question_is_active = True\<rparr>
   \<and> map question_key (wizard_chain 4 example_db ''s1'')
     = [''dietary_preference'', ''cuisine_type'', ''hunger_level'']
   \<and> sorted_wrt (<) (map question_order (wizard_chain 4 example_db ''s1''))
   \<and> get_next_question example_db ''s1''
        (Some (question_key (last (wizard_chain 4 example_db ''s1'')))) = None"
proof -
  let ?q1 = "\<lparr>question_key = ''dietary_preference'', question_text = ''What do you eat?'',
             question_order = 1, question_is_active = True\<rparr>"
  let ?q2 = "\<lparr>question_key = ''cuisine_type'', question_text = ''Which cuisine?'',
             question_order = 2, question_is_active = True\<rparr>"
  have d: "distinct (map question_key (question_masters example_db))
        \<and> [] \<notin> question_key ` set (question_masters example_db)"
    by (simp add: example_db_def)
  have f: "length (question_masters example_db) \<le> 4" by (simp add: example_db_def)
  have w: "map question_key (wizard_chain 4 example_db ''s1'')
     = [''dietary_preference'', ''cuisine_type'', ''hunger_level'']"
    by code_simp
  then have n: "wizard_chain 4 example_db ''s1'' \<noteq> []" by auto
  have a: "get_next_question example_db ''s1'' None = Some ?q1" by code_simp
  have b: "get_next_question example_db ''s1'' (Some ''dietary_preference'') = Some ?q2"
    by code_simp
  have k: "''dietary_preference'' \<noteq> []
     \<and> find (\<lambda>x. question_key x = ''dietary_preference'') (question_masters example_db) = Some ?q1"
    by (simp add: example_db_def)
  note t = progression_order [where db = example_db and sid = "''s1''" and fuel = 4
      and q = ?q1 and k = "''dietary_preference''" and c = ?q1 and n = ?q2]
  from t k b have lt: "question_order ?q1 < question_order ?q2" by blast
  from t d f n
  have "sorted_wrt (<) (map question_order (wizard_chain 4 example_db ''s1''))
     \<and> get_next_question example_db ''s1''
        (Some (question_key (last (wizard_chain 4 example_db ''s1'')))) = None"
    by blast
  with a b w lt show ?thesis by blast
qed

end
